theory Spec2Isabelle
  imports Main "HOL-Library.Log_Nat"
begin

section \<open>JavaScript strings\<close>

text \<open>
  A JavaScript string is a sequence of UTF-16 code units. It is modelled as a
  \<^typ>\<open>string\<close> whose characters are the code units 0..255 (Latin-1), which covers
  the ASCII text the parsers are written for. \<open>length\<close> is the \<open>.length\<close> of the
  source.
\<close>

text \<open>
  White space as \<open>String.prototype.trim\<close> and the regular expression class \<open>\s\<close>
  see it: TAB, LF, VT, FF, CR, SPACE and NO-BREAK SPACE are the members below 256.
\<close>

definition isWhiteSpace :: "char \<Rightarrow> bool" where
  "isWhiteSpace c =
     (c = CHR 0x09 \<or> c = CHR 0x0A \<or> c = CHR 0x0B \<or> c = CHR 0x0C \<or> c = CHR 0x0D \<or>
      c = CHR 0x20 \<or> c = CHR 0xA0)"

definition trim :: "string \<Rightarrow> string" where
  "trim s = rev (dropWhile isWhiteSpace (rev (dropWhile isWhiteSpace s)))"

text \<open>
  \<open>s.split(c)\<close> for a one-character separator: the pieces between the separators,
  never an empty array (\<open>''.split('\n')\<close> is \<open>['']\<close>).
\<close>

fun split_char :: "char \<Rightarrow> string \<Rightarrow> string list" where
  "split_char sep [] = [[]]"
| "split_char sep (c # cs) =
     (if c = sep then [] # split_char sep cs
      else (case split_char sep cs of
              [] \<Rightarrow> [[c]]
            | l # ls \<Rightarrow> (c # l) # ls))"

text \<open>\<open>xs.join(sep)\<close>.\<close>

fun join :: "string \<Rightarrow> string list \<Rightarrow> string" where
  "join sep [] = []"
| "join sep [x] = x"
| "join sep (x # y # ys) = x @ sep @ join sep (y # ys)"

text \<open>
  \<open>String.prototype.toUpperCase\<close> on the code units below 256: the ASCII letters
  and the Latin-1 letters move down by 32, sharp s becomes \<open>SS\<close>. The upper-case
  forms of the micro sign (181) and of y with diaeresis (255) lie outside Latin-1; the
  model leaves these two unchanged. All other code units are their own upper case.
\<close>

definition toUpperCase_char :: "char \<Rightarrow> string" where
  "toUpperCase_char c =
     (let n = (of_char c :: nat) in
      if 97 \<le> n \<and> n \<le> 122 then [char_of (n - 32)]
      else if n = 223 then ''SS''
      else if 224 \<le> n \<and> n \<le> 254 \<and> n \<noteq> 247 then [char_of (n - 32)]
      else [c])"

definition toUpperCase :: "string \<Rightarrow> string" where
  "toUpperCase s = concat (map toUpperCase_char s)"

text \<open>\<open>s.replace(/,/g, '')\<close>, \<open>s.replace(/\s+/g, ' ')\<close> and \<open>normalizeWhitespace\<close> of
  \<open>BaseParser\<close> (\<open>text.replace(/\s+/g, ' ').trim()\<close>).\<close>

definition removeCommas :: "string \<Rightarrow> string" where
  "removeCommas s = filter (\<lambda>c. c \<noteq> CHR '','') s"

fun collapseFrom :: "bool \<Rightarrow> string \<Rightarrow> string" where
  "collapseFrom inRun [] = []"
| "collapseFrom inRun (c # cs) =
     (if isWhiteSpace c then (if inRun then collapseFrom True cs else CHR '' '' # collapseFrom True cs)
      else c # collapseFrom False cs)"

definition collapseWhiteSpace :: "string \<Rightarrow> string" where
  "collapseWhiteSpace s = collapseFrom False s"

definition normalizeWhitespace :: "string \<Rightarrow> string" where
  "normalizeWhitespace text = trim (collapseWhiteSpace text)"

section \<open>Regular expressions\<close>

text \<open>
  The regular expressions of the parsers, as a datatype. \<open>Chr P\<close> is a character
  class (a single character, \<open>\d\<close>, \<open>[A-Z0-9]\<close>, the dot), \<open>Star\<close> the greedy and
  \<open>StarLazy\<close> the lazy star, \<open>Bol\<close>, \<open>Eol\<close> and \<open>Wb\<close> the assertions \<open>^\<close>,
  \<open>$\<close> (no \<open>m\<close> flag is used in the source) and \<open>\b\<close>.

  A position in the subject string is a cursor: the text before the position,
  reversed, and the text from the position on. \<open>rxm ic r cu\<close> lists the cursors at
  the ends of the matches of \<open>r\<close> that start at \<open>cu\<close>, in the order in which the
  backtracking matcher of ECMAScript tries them; \<open>ic\<close> is the \<open>i\<close> flag. As in
  ECMAScript an iteration of a star that consumes nothing is not taken, so as many
  iterations as there are characters left always suffice.
\<close>

datatype rx =
    Chr "char \<Rightarrow> bool"
  | Eps
  | Cat rx rx
  | Alt rx rx
  | Star rx
  | StarLazy rx
  | Bol
  | Eol
  | Wb

type_synonym cursor = "string \<times> string"

text \<open>
  The character classes \<open>\d\<close>, \<open>[A-Z]\<close> and \<open>[a-z]\<close>, read off the bits of the
  code unit (\<open>Char b0 \<dots> b7\<close>, bit 0 first), and the partner of a letter under the
  \<open>i\<close> flag: the other case of an ASCII letter or of a Latin-1 letter, which differs
  in bit 5. The lemmas after the definitions list the members of each class.
\<close>

fun isDigit :: "char \<Rightarrow> bool" where
  "isDigit (Char b0 b1 b2 b3 b4 b5 b6 b7) =
     (\<not> b7 \<and> \<not> b6 \<and> b5 \<and> b4 \<and> (\<not> b3 \<or> (\<not> b2 \<and> \<not> b1)))"

fun isLetter :: "char \<Rightarrow> bool" where
  "isLetter (Char b0 b1 b2 b3 b4 b5 b6 b7) =
     (\<not> b7 \<and> b6 \<and> (b0 \<or> b1 \<or> b2 \<or> b3 \<or> b4) \<and> \<not> (b4 \<and> b3 \<and> (b2 \<or> (b1 \<and> b0))))"

fun isUpper :: "char \<Rightarrow> bool" where
  "isUpper (Char b0 b1 b2 b3 b4 b5 b6 b7) =
     (\<not> b5 \<and> isLetter (Char b0 b1 b2 b3 b4 b5 b6 b7))"

fun isLower :: "char \<Rightarrow> bool" where
  "isLower (Char b0 b1 b2 b3 b4 b5 b6 b7) =
     (b5 \<and> isLetter (Char b0 b1 b2 b3 b4 b5 b6 b7))"

fun otherCase :: "char \<Rightarrow> char" where
  "otherCase (Char b0 b1 b2 b3 b4 b5 b6 b7) =
     (if isLetter (Char b0 b1 b2 b3 b4 b5 b6 b7) \<or>
         (b7 \<and> b6 \<and> \<not> (b4 \<and> b2 \<and> b1 \<and> b0))
      then Char b0 b1 b2 b3 b4 (\<not> b5) b6 b7
      else Char b0 b1 b2 b3 b4 b5 b6 b7)"

lemma isDigit_members: "filter isDigit Enum.enum = ''0123456789''"
  by code_simp

lemma isUpper_members: "filter isUpper Enum.enum = ''ABCDEFGHIJKLMNOPQRSTUVWXYZ''"
  by code_simp

lemma isLower_members: "filter isLower Enum.enum = ''abcdefghijklmnopqrstuvwxyz''"
  by code_simp

lemma otherCase_ascii:
  "map otherCase ''abcdefghijklmnopqrstuvwxyz'' = ''ABCDEFGHIJKLMNOPQRSTUVWXYZ''"
  "map otherCase ''ABCDEFGHIJKLMNOPQRSTUVWXYZ'' = ''abcdefghijklmnopqrstuvwxyz''"
  by code_simp+

lemma otherCase_changes:
  "map (of_char :: char \<Rightarrow> nat) (filter (\<lambda>c. otherCase c \<noteq> c) Enum.enum) =
     [65..<91] @ [97..<123] @ [192..<215] @ [216..<223] @ [224..<247] @ [248..<255]"
  by code_simp

definition classMatches :: "bool \<Rightarrow> (char \<Rightarrow> bool) \<Rightarrow> char \<Rightarrow> bool" where
  "classMatches ic P c = (if P c then True else if ic then P (otherCase c) else False)"

definition isWordChar :: "char \<Rightarrow> bool" where
  "isWordChar c = (isDigit c \<or> isUpper c \<or> isLower c \<or> c = CHR ''_'')"

definition isLineTerminator :: "char \<Rightarrow> bool" where
  "isLineTerminator c = (c = CHR 0x0A \<or> c = CHR 0x0D)"

definition wordBoundary :: "cursor \<Rightarrow> bool" where
  "wordBoundary cu =
     ((case fst cu of [] \<Rightarrow> False | c # _ \<Rightarrow> isWordChar c) \<noteq>
      (case snd cu of [] \<Rightarrow> False | c # _ \<Rightarrow> isWordChar c))"

definition advances :: "cursor \<Rightarrow> cursor \<Rightarrow> bool" where
  "advances cu cu' = (length (snd cu') < length (snd cu))"

primrec starGreedy :: "(cursor \<Rightarrow> cursor list) \<Rightarrow> nat \<Rightarrow> cursor \<Rightarrow> cursor list" where
  "starGreedy f 0 cu = [cu]"
| "starGreedy f (Suc n) cu = concat (map (starGreedy f n) (filter (advances cu) (f cu))) @ [cu]"

primrec starLazy :: "(cursor \<Rightarrow> cursor list) \<Rightarrow> nat \<Rightarrow> cursor \<Rightarrow> cursor list" where
  "starLazy f 0 cu = [cu]"
| "starLazy f (Suc n) cu = cu # concat (map (starLazy f n) (filter (advances cu) (f cu)))"

primrec rxm :: "bool \<Rightarrow> rx \<Rightarrow> cursor \<Rightarrow> cursor list" where
  "rxm ic (Chr P) cu =
     (case snd cu of
        [] \<Rightarrow> []
      | c # cs \<Rightarrow> if classMatches ic P c then [(c # fst cu, cs)] else [])"
| "rxm ic Eps cu = [cu]"
| "rxm ic (Cat r1 r2) cu = concat (map (rxm ic r2) (rxm ic r1 cu))"
| "rxm ic (Alt r1 r2) cu = rxm ic r1 cu @ rxm ic r2 cu"
| "rxm ic (Star r) cu = starGreedy (rxm ic r) (length (snd cu)) cu"
| "rxm ic (StarLazy r) cu = starLazy (rxm ic r) (length (snd cu)) cu"
| "rxm ic Bol cu = (if fst cu = [] then [cu] else [])"
| "rxm ic Eol cu = (if snd cu = [] then [cu] else [])"
| "rxm ic Wb cu = (if wordBoundary cu then [cu] else [])"

text \<open>The derived forms: a literal string, \<open>r+\<close>, \<open>r?\<close>, \<open>r{n}\<close>, \<open>r{n,}\<close>,
  \<open>r{n,m}\<close>, \<open>r+?\<close>, a sequence and an alternative of several.\<close>

definition Lit :: "char \<Rightarrow> rx" where
  "Lit c = Chr (\<lambda>x. x = c)"

definition Str :: "string \<Rightarrow> rx" where
  "Str w = foldr (\<lambda>c r. Cat (Lit c) r) w Eps"

definition Plus :: "rx \<Rightarrow> rx" where
  "Plus r = Cat r (Star r)"

definition PlusLazy :: "rx \<Rightarrow> rx" where
  "PlusLazy r = Cat r (StarLazy r)"

definition Opt :: "rx \<Rightarrow> rx" where
  "Opt r = Alt r Eps"

primrec Times :: "nat \<Rightarrow> rx \<Rightarrow> rx" where
  "Times 0 r = Eps"
| "Times (Suc n) r = Cat r (Times n r)"

primrec UpTo :: "nat \<Rightarrow> rx \<Rightarrow> rx" where
  "UpTo 0 r = Eps"
| "UpTo (Suc n) r = Alt (Cat r (UpTo n r)) Eps"

definition AtLeast :: "nat \<Rightarrow> rx \<Rightarrow> rx" where
  "AtLeast n r = Cat (Times n r) (Star r)"

definition Between :: "nat \<Rightarrow> nat \<Rightarrow> rx \<Rightarrow> rx" where
  "Between n m r = Cat (Times n r) (UpTo (m - n) r)"

definition Seq :: "rx list \<Rightarrow> rx" where
  "Seq rs = foldr Cat rs Eps"

definition AnyOf :: "rx list \<Rightarrow> rx" where
  "AnyOf rs = foldr Alt rs (Chr (\<lambda>c. False))"

definition Digit :: rx where
  "Digit = Chr isDigit"

definition Space :: rx where
  "Space = Chr isWhiteSpace"

definition Dot :: rx where
  "Dot = Chr (\<lambda>c. \<not> isLineTerminator c)"

text \<open>
  \<open>re.test(s)\<close> for a regular expression without the \<open>g\<close> flag: some position
  starts a match; the positions are tried from the left.
\<close>

fun rx_search :: "bool \<Rightarrow> rx \<Rightarrow> string \<Rightarrow> string \<Rightarrow> bool" where
  "rx_search ic r seen [] = (rxm ic r (seen, []) \<noteq> [])"
| "rx_search ic r seen (c # cs) =
     (if rxm ic r (seen, c # cs) \<noteq> [] then True else rx_search ic r (c # seen) cs)"

definition rx_test :: "bool \<Rightarrow> rx \<Rightarrow> string \<Rightarrow> bool" where
  "rx_test ic r s = rx_search ic r [] s"

text \<open>
  \<open>s.match(re)\<close> for a pattern that is a sequence of pieces, some of them capture
  groups: the first match in the matcher's order, from the leftmost position that
  starts one, as the cursors at the boundaries of the pieces (\<open>n + 1\<close> cursors for
  \<open>n\<close> pieces). \<open>piece\<close> is the text of piece \<open>k\<close> (counted from 0).
\<close>

primrec rx_pieces :: "bool \<Rightarrow> rx list \<Rightarrow> cursor \<Rightarrow> cursor list list" where
  "rx_pieces ic [] cu = [[cu]]"
| "rx_pieces ic (r # rs) cu =
     concat (map (\<lambda>cu'. map (\<lambda>bs. cu # bs) (rx_pieces ic rs cu')) (rxm ic r cu))"

fun rx_exec_from :: "bool \<Rightarrow> rx list \<Rightarrow> string \<Rightarrow> string \<Rightarrow> cursor list option" where
  "rx_exec_from ic rs seen [] =
     (case rx_pieces ic rs (seen, []) of [] \<Rightarrow> None | bs # _ \<Rightarrow> Some bs)"
| "rx_exec_from ic rs seen (c # cs) =
     (case rx_pieces ic rs (seen, c # cs) of
        [] \<Rightarrow> rx_exec_from ic rs (c # seen) cs
      | bs # _ \<Rightarrow> Some bs)"

definition rx_exec :: "bool \<Rightarrow> rx list \<Rightarrow> string \<Rightarrow> cursor list option" where
  "rx_exec ic rs s = rx_exec_from ic rs [] s"

definition between :: "cursor \<Rightarrow> cursor \<Rightarrow> string" where
  "between cu cu' = take (length (snd cu) - length (snd cu')) (snd cu)"

definition piece :: "cursor list \<Rightarrow> nat \<Rightarrow> string" where
  "piece bs k = between (bs ! k) (bs ! Suc k)"

section \<open>Pattern registries (\<open>getPatterns\<close>)\<close>

text \<open>
  A regular expression literal with its \<open>i\<close> flag. \<open>re_test\<close> is \<open>re.test(s)\<close>,
  \<open>some_test\<close> is \<open>patterns.some(p => p.test(line))\<close>. None of the literals has the
  \<open>g\<close> flag, so \<open>test\<close> keeps no state, and none has a negated class.
\<close>

type_synonym regexp = "bool \<times> rx"

definition re_test :: "regexp \<Rightarrow> string \<Rightarrow> bool" where
  "re_test re s = rx_test (fst re) (snd re) s"

fun some_test :: "regexp list \<Rightarrow> string \<Rightarrow> bool" where
  "some_test [] line = False"
| "some_test (p # ps) line = (if re_test p line then True else some_test ps line)"

record patterns =
  transaction :: regexp
  headers :: "regexp list"
  continuation :: "regexp list"
  personalInfo :: "regexp list"

subsection \<open>HDFC\<close>

text \<open>\<^verbatim>\<open>transaction: /^\d{2}\/\d{2}\/\d{2}\s*\|/\<close>\<close>

definition hdfc_transaction :: regexp where
  "hdfc_transaction =
     (False, Seq [Bol, Times 2 Digit, Lit CHR ''/'', Times 2 Digit, Lit CHR ''/'', Times 2 Digit, Star Space, Lit CHR ''|''])"

text \<open>headers:
  \<^verbatim>\<open>/^={3,}\s*PAGE/i\<close>
  \<^verbatim>\<open>/^(Page No|PageNo)[:.]?\s*\d+/i\<close>
  \<^verbatim>\<open>/HDFC\s+BANK/i\<close>
  \<^verbatim>\<open>/Account\s+Branch/i\<close>
  \<^verbatim>\<open>/Address\s*:/i\<close>
  \<^verbatim>\<open>/Phone\s+no/i\<close>
  \<^verbatim>\<open>/Cust\s+ID/i\<close>
  \<^verbatim>\<open>/Account(No|Number)/i\<close>
  \<^verbatim>\<open>/RTGS\/NEFT/i\<close>
  \<^verbatim>\<open>/Statement\s+of\s+account/i\<close>
  \<^verbatim>\<open>/From\s*:\s*\d{2}\/\d{2}/i\<close>
  \<^verbatim>\<open>/Closing\s+Balance/i\<close>
  \<^verbatim>\<open>/Withdrawal\s+Amt/i\<close>
  \<^verbatim>\<open>/STATEMENT\s+SUMMARY/i\<close>
  \<^verbatim>\<open>/Generated\s+On:/i\<close>
  \<^verbatim>\<open>/computer\s+generated/i\<close>
  \<^verbatim>\<open>/^\*.*funds.*earmarked/i\<close>
  \<^verbatim>\<open>/Contents\s+of\s+this/i\<close>
  \<^verbatim>\<open>/Registered\s+Office/i\<close>
\<close>

definition hdfc_headers :: "regexp list" where
  "hdfc_headers =
     [(True, Seq [Bol, AtLeast 3 (Lit CHR ''=''), Star Space, Str ''PAGE'']),
      (True, Seq [Bol, AnyOf [Str ''Page No'', Str ''PageNo''], Opt (Chr (\<lambda>c. c = CHR '':'' \<or> c = CHR ''.'')), Star Space, Plus Digit]),
      (True, Seq [Str ''HDFC'', Plus Space, Str ''BANK'']),
      (True, Seq [Str ''Account'', Plus Space, Str ''Branch'']),
      (True, Seq [Str ''Address'', Star Space, Lit CHR '':'']),
      (True, Seq [Str ''Phone'', Plus Space, Str ''no'']),
      (True, Seq [Str ''Cust'', Plus Space, Str ''ID'']),
      (True, Seq [Str ''Account'', AnyOf [Str ''No'', Str ''Number'']]),
      (True, Str ''RTGS/NEFT''),
      (True, Seq [Str ''Statement'', Plus Space, Str ''of'', Plus Space, Str ''account'']),
      (True, Seq [Str ''From'', Star Space, Lit CHR '':'', Star Space, Times 2 Digit, Lit CHR ''/'', Times 2 Digit]),
      (True, Seq [Str ''Closing'', Plus Space, Str ''Balance'']),
      (True, Seq [Str ''Withdrawal'', Plus Space, Str ''Amt'']),
      (True, Seq [Str ''STATEMENT'', Plus Space, Str ''SUMMARY'']),
      (True, Seq [Str ''Generated'', Plus Space, Str ''On:'']),
      (True, Seq [Str ''computer'', Plus Space, Str ''generated'']),
      (True, Seq [Bol, Lit CHR ''*'', Star Dot, Str ''funds'', Star Dot, Str ''earmarked'']),
      (True, Seq [Str ''Contents'', Plus Space, Str ''of'', Plus Space, Str ''this'']),
      (True, Seq [Str ''Registered'', Plus Space, Str ''Office''])]"

text \<open>continuation:
  \<^verbatim>\<open>/@[A-Z0-9\-]+/\<close>
  \<^verbatim>\<open>/[A-Z]{3,}BANK/\<close>
  \<^verbatim>\<open>/-UPI$/\<close>
  \<^verbatim>\<open>/-UPT$/\<close>
  \<^verbatim>\<open>/-PAY$/\<close>
  \<^verbatim>\<open>/^[A-Z0-9@\-]{8,}$/\<close>
  \<^verbatim>\<open>/HDFC\d{7}/\<close>
  \<^verbatim>\<open>/ICIC\d{7}/\<close>
\<close>

definition hdfc_continuation :: "regexp list" where
  "hdfc_continuation =
     [(False, Seq [Lit CHR ''@'', Plus (Chr (\<lambda>c. isUpper c \<or> isDigit c \<or> c = CHR ''-''))]),
      (False, Seq [AtLeast 3 (Chr (\<lambda>c. isUpper c)), Str ''BANK'']),
      (False, Seq [Str ''-UPI'', Eol]),
      (False, Seq [Str ''-UPT'', Eol]),
      (False, Seq [Str ''-PAY'', Eol]),
      (False, Seq [Bol, AtLeast 8 (Chr (\<lambda>c. isUpper c \<or> isDigit c \<or> c = CHR ''@'' \<or> c = CHR ''-'')), Eol]),
      (False, Seq [Str ''HDFC'', Times 7 Digit]),
      (False, Seq [Str ''ICIC'', Times 7 Digit])]"

text \<open>personalInfo:
  \<^verbatim>\<open>/^(MR|MS|MRS)\s+[A-Z\s]+$/\<close>
  \<^verbatim>\<open>/^FLAT\s+NO\s+\d+/i\<close>
  \<^verbatim>\<open>/^(LIVING|APARTMENT|ROAD|STREET)/i\<close>
  \<^verbatim>\<open>/^(BANGALORE|BENGALURU|MUMBAI|DELHI|CHENNAI|KOLKATA)/i\<close>
  \<^verbatim>\<open>/^[A-Z\s]+(NAGAR|COLONY|LAYOUT|CROSS)/i\<close>
\<close>

definition hdfc_personalInfo :: "regexp list" where
  "hdfc_personalInfo =
     [(False, Seq [Bol, AnyOf [Str ''MR'', Str ''MS'', Str ''MRS''], Plus Space, Plus (Chr (\<lambda>c. isUpper c \<or> isWhiteSpace c)), Eol]),
      (True, Seq [Bol, Str ''FLAT'', Plus Space, Str ''NO'', Plus Space, Plus Digit]),
      (True, Seq [Bol, AnyOf [Str ''LIVING'', Str ''APARTMENT'', Str ''ROAD'', Str ''STREET'']]),
      (True, Seq [Bol, AnyOf [Str ''BANGALORE'', Str ''BENGALURU'', Str ''MUMBAI'', Str ''DELHI'', Str ''CHENNAI'', Str ''KOLKATA'']]),
      (True, Seq [Bol, Plus (Chr (\<lambda>c. isUpper c \<or> isWhiteSpace c)), AnyOf [Str ''NAGAR'', Str ''COLONY'', Str ''LAYOUT'', Str ''CROSS'']])]"

definition hdfc_getPatterns :: patterns where
  "hdfc_getPatterns =
     \<lparr>transaction = hdfc_transaction, headers = hdfc_headers,
      continuation = hdfc_continuation, personalInfo = hdfc_personalInfo\<rparr>"

subsection \<open>Kotak\<close>

text \<open>\<^verbatim>\<open>transaction: /^\d{2}-\d{2}-\d{4}\s+/\<close>\<close>

definition kotak_transaction :: regexp where
  "kotak_transaction =
     (False, Seq [Bol, Times 2 Digit, Lit CHR ''-'', Times 2 Digit, Lit CHR ''-'', Times 4 Digit, Plus Space])"

text \<open>headers:
  \<^verbatim>\<open>/^={3,}\s*PAGE/i\<close>
  \<^verbatim>\<open>/^(Page|PageNo)[\s:]?\d+(\s+of\s+\d+)?/i\<close>
  \<^verbatim>\<open>/\b(BANK|MAHINDRA|KOTAK)\b/i\<close>
  \<^verbatim>\<open>/\b(IFSC|MICR|RTGS|NEFT)\s+(Code|No)/i\<close>
  \<^verbatim>\<open>/^(Account|Acc)\s+(No|Number)\s*[:=]/i\<close>
  \<^verbatim>\<open>/^(Cust|Customer)\s+/i\<close>
  \<^verbatim>\<open>/^Currency\s*[:=]/i\<close>
  \<^verbatim>\<open>/^Branch\s*[:=]/i\<close>
  \<^verbatim>\<open>/^Nominee\s+(Registered|Name)/i\<close>
  \<^verbatim>\<open>/^(Date|Txn Date)\s+(Narration|Description)/i\<close>
  \<^verbatim>\<open>/^Statement\s+(Summary|Period)/i\<close>
  \<^verbatim>\<open>/^(Opening|Closing)\s+Balance/i\<close>
  \<^verbatim>\<open>/^Total\s+(Withdrawal|Deposit|Credit|Debit)/i\<close>
  \<^verbatim>\<open>/^(Withdrawal|Deposit|Credit|Debit)\s+(Count|Amount)/i\<close>
  \<^verbatim>\<open>/^(Any|All)\s+discrepancy/i\<close>
  \<^verbatim>\<open>/^End\s+of\s+Statement/i\<close>
  \<^verbatim>\<open>/^This\s+is\s+(system|computer)/i\<close>
  \<^verbatim>\<open>/^(Generated|Printed)\s+(On|At)/i\<close>
  \<^verbatim>\<open>/does\s+not\s+require\s+(signature|stamp)/i\<close>
  \<^verbatim>\<open>/^(Registered|Corporate)\s+Office/i\<close>
  \<^verbatim>\<open>/^For\s+(any|more)\s+(queries|information)/i\<close>
\<close>

definition kotak_headers :: "regexp list" where
  "kotak_headers =
     [(True, Seq [Bol, AtLeast 3 (Lit CHR ''=''), Star Space, Str ''PAGE'']),
      (True, Seq [Bol, AnyOf [Str ''Page'', Str ''PageNo''], Opt (Chr (\<lambda>c. isWhiteSpace c \<or> c = CHR '':'')), Plus Digit, Opt (Seq [Plus Space, Str ''of'', Plus Space, Plus Digit])]),
      (True, Seq [Wb, AnyOf [Str ''BANK'', Str ''MAHINDRA'', Str ''KOTAK''], Wb]),
      (True, Seq [Wb, AnyOf [Str ''IFSC'', Str ''MICR'', Str ''RTGS'', Str ''NEFT''], Plus Space, AnyOf [Str ''Code'', Str ''No'']]),
      (True, Seq [Bol, AnyOf [Str ''Account'', Str ''Acc''], Plus Space, AnyOf [Str ''No'', Str ''Number''], Star Space, Chr (\<lambda>c. c = CHR '':'' \<or> c = CHR ''='')]),
      (True, Seq [Bol, AnyOf [Str ''Cust'', Str ''Customer''], Plus Space]),
      (True, Seq [Bol, Str ''Currency'', Star Space, Chr (\<lambda>c. c = CHR '':'' \<or> c = CHR ''='')]),
      (True, Seq [Bol, Str ''Branch'', Star Space, Chr (\<lambda>c. c = CHR '':'' \<or> c = CHR ''='')]),
      (True, Seq [Bol, Str ''Nominee'', Plus Space, AnyOf [Str ''Registered'', Str ''Name'']]),
      (True, Seq [Bol, AnyOf [Str ''Date'', Str ''Txn Date''], Plus Space, AnyOf [Str ''Narration'', Str ''Description'']]),
      (True, Seq [Bol, Str ''Statement'', Plus Space, AnyOf [Str ''Summary'', Str ''Period'']]),
      (True, Seq [Bol, AnyOf [Str ''Opening'', Str ''Closing''], Plus Space, Str ''Balance'']),
      (True, Seq [Bol, Str ''Total'', Plus Space, AnyOf [Str ''Withdrawal'', Str ''Deposit'', Str ''Credit'', Str ''Debit'']]),
      (True, Seq [Bol, AnyOf [Str ''Withdrawal'', Str ''Deposit'', Str ''Credit'', Str ''Debit''], Plus Space, AnyOf [Str ''Count'', Str ''Amount'']]),
      (True, Seq [Bol, AnyOf [Str ''Any'', Str ''All''], Plus Space, Str ''discrepancy'']),
      (True, Seq [Bol, Str ''End'', Plus Space, Str ''of'', Plus Space, Str ''Statement'']),
      (True, Seq [Bol, Str ''This'', Plus Space, Str ''is'', Plus Space, AnyOf [Str ''system'', Str ''computer'']]),
      (True, Seq [Bol, AnyOf [Str ''Generated'', Str ''Printed''], Plus Space, AnyOf [Str ''On'', Str ''At'']]),
      (True, Seq [Str ''does'', Plus Space, Str ''not'', Plus Space, Str ''require'', Plus Space, AnyOf [Str ''signature'', Str ''stamp'']]),
      (True, Seq [Bol, AnyOf [Str ''Registered'', Str ''Corporate''], Plus Space, Str ''Office'']),
      (True, Seq [Bol, Str ''For'', Plus Space, AnyOf [Str ''any'', Str ''more''], Plus Space, AnyOf [Str ''queries'', Str ''information'']])]"

text \<open>continuation:
  \<^verbatim>\<open>/^\/UP[Il]?intent$/i\<close>
  \<^verbatim>\<open>/^\/Payment(\s|$)/i\<close>
  \<^verbatim>\<open>/^from\s+Ph(one)?$/i\<close>
  \<^verbatim>\<open>/^\[(Rent|EMI|Loan|Bill)\s+for$/i\<close>
  \<^verbatim>\<open>/^(repayme|repayment)$/i\<close>
  \<^verbatim>\<open>/^\/[A-Z][a-z]+pay$/i\<close>
  \<^verbatim>\<open>/^I[A-Z][a-z]+Online/i\<close>
  \<^verbatim>\<open>/^\d+\s+(will?|rs?)$/i\<close>
  \<^verbatim>\<open>/^(Pay\s+to|Transfer\s+to)$/i\<close>
  \<^verbatim>\<open>/^[A-Z][a-z]+Pe$/i\<close>
  \<^verbatim>\<open>/^Only\s+Rs\.?$/i\<close>
\<close>

definition kotak_continuation :: "regexp list" where
  "kotak_continuation =
     [(True, Seq [Bol, Str ''/UP'', Opt (Chr (\<lambda>c. c = CHR ''I'' \<or> c = CHR ''l'')), Str ''intent'', Eol]),
      (True, Seq [Bol, Str ''/Payment'', AnyOf [Space, Eol]]),
      (True, Seq [Bol, Str ''from'', Plus Space, Str ''Ph'', Opt (Str ''one''), Eol]),
      (True, Seq [Bol, Lit CHR ''['', AnyOf [Str ''Rent'', Str ''EMI'', Str ''Loan'', Str ''Bill''], Plus Space, Str ''for'', Eol]),
      (True, Seq [Bol, AnyOf [Str ''repayme'', Str ''repayment''], Eol]),
      (True, Seq [Bol, Lit CHR ''/'', Chr (\<lambda>c. isUpper c), Plus (Chr (\<lambda>c. isLower c)), Str ''pay'', Eol]),
      (True, Seq [Bol, Lit CHR ''I'', Chr (\<lambda>c. isUpper c), Plus (Chr (\<lambda>c. isLower c)), Str ''Online'']),
      (True, Seq [Bol, Plus Digit, Plus Space, AnyOf [Seq [Str ''wil'', Opt (Lit CHR ''l'')], Seq [Lit CHR ''r'', Opt (Lit CHR ''s'')]], Eol]),
      (True, Seq [Bol, AnyOf [Seq [Str ''Pay'', Plus Space, Str ''to''], Seq [Str ''Transfer'', Plus Space, Str ''to'']], Eol]),
      (True, Seq [Bol, Chr (\<lambda>c. isUpper c), Plus (Chr (\<lambda>c. isLower c)), Str ''Pe'', Eol]),
      (True, Seq [Bol, Str ''Only'', Plus Space, Str ''Rs'', Opt (Lit CHR ''.''), Eol])]"

text \<open>personalInfo:
  \<^verbatim>\<open>/^(MR|MS|MRS|DR|PROF)\.?\s+[A-Z][A-Za-z\s]+$/\<close>
  \<^verbatim>\<open>/^[A-Z][A-Za-z]+\s+[A-Z][A-Za-z]+(\s+Period)?$/i\<close>
  \<^verbatim>\<open>/^(FLAT|APARTMENT|HOUSE|BLDG|BUILDING)\s+(NO\.?|NUMBER)\s*\d+/i\<close>
  \<^verbatim>\<open>/^(FLOOR|FLR)\s*\d+/i\<close>
  \<^verbatim>\<open>/^[A-Z\d\s]+(APARTMENT|COMPLEX|RESIDENCY|LAYOUT|COLONY)$/i\<close>
  \<^verbatim>\<open>/^[A-Z\d\s]+(ROAD|STREET|AVENUE|LANE|CROSS)$/i\<close>
  \<^verbatim>\<open>/^[A-Z\d\s]+(NAGAR|PURAM|ENCLAVE|SOCIETY)$/i\<close>
  \<^verbatim>\<open>/^[A-Z][a-z]+(ABAD|URU|AI|PORE|TAN|GAR)-\d{6}$/i\<close>
  \<^verbatim>\<open>/^(KARNATAKA|MAHARASHTRA|TAMIL\s+NADU|GUJARAT|DELHI|RAJASTHAN|UP|MP),?\s+(INDIA)?$/i\<close>
  \<^verbatim>\<open>/^INDIA$/i\<close>
  \<^verbatim>\<open>/^(Phone|Mobile|Tel|Contact)\s+(No|Number)\.?\s*[:=]?\s*\d/i\<close>
  \<^verbatim>\<open>/^Email\s*[:=]/i\<close>
\<close>

definition kotak_personalInfo :: "regexp list" where
  "kotak_personalInfo =
     [(False, Seq [Bol, AnyOf [Str ''MR'', Str ''MS'', Str ''MRS'', Str ''DR'', Str ''PROF''], Opt (Lit CHR ''.''), Plus Space, Chr (\<lambda>c. isUpper c), Plus (Chr (\<lambda>c. isUpper c \<or> isLower c \<or> isWhiteSpace c)), Eol]),
      (True, Seq [Bol, Chr (\<lambda>c. isUpper c), Plus (Chr (\<lambda>c. isUpper c \<or> isLower c)), Plus Space, Chr (\<lambda>c. isUpper c), Plus (Chr (\<lambda>c. isUpper c \<or> isLower c)), Opt (Seq [Plus Space, Str ''Period'']), Eol]),
      (True, Seq [Bol, AnyOf [Str ''FLAT'', Str ''APARTMENT'', Str ''HOUSE'', Str ''BLDG'', Str ''BUILDING''], Plus Space, AnyOf [Seq [Str ''NO'', Opt (Lit CHR ''.'')], Str ''NUMBER''], Star Space, Plus Digit]),
      (True, Seq [Bol, AnyOf [Str ''FLOOR'', Str ''FLR''], Star Space, Plus Digit]),
      (True, Seq [Bol, Plus (Chr (\<lambda>c. isUpper c \<or> isDigit c \<or> isWhiteSpace c)), AnyOf [Str ''APARTMENT'', Str ''COMPLEX'', Str ''RESIDENCY'', Str ''LAYOUT'', Str ''COLONY''], Eol]),
      (True, Seq [Bol, Plus (Chr (\<lambda>c. isUpper c \<or> isDigit c \<or> isWhiteSpace c)), AnyOf [Str ''ROAD'', Str ''STREET'', Str ''AVENUE'', Str ''LANE'', Str ''CROSS''], Eol]),
      (True, Seq [Bol, Plus (Chr (\<lambda>c. isUpper c \<or> isDigit c \<or> isWhiteSpace c)), AnyOf [Str ''NAGAR'', Str ''PURAM'', Str ''ENCLAVE'', Str ''SOCIETY''], Eol]),
      (True, Seq [Bol, Chr (\<lambda>c. isUpper c), Plus (Chr (\<lambda>c. isLower c)), AnyOf [Str ''ABAD'', Str ''URU'', Str ''AI'', Str ''PORE'', Str ''TAN'', Str ''GAR''], Lit CHR ''-'', Times 6 Digit, Eol]),
      (True, Seq [Bol, AnyOf [Str ''KARNATAKA'', Str ''MAHARASHTRA'', Seq [Str ''TAMIL'', Plus Space, Str ''NADU''], Str ''GUJARAT'', Str ''DELHI'', Str ''RAJASTHAN'', Str ''UP'', Str ''MP''], Opt (Lit CHR '',''), Plus Space, Opt (Str ''INDIA''), Eol]),
      (True, Seq [Bol, Str ''INDIA'', Eol]),
      (True, Seq [Bol, AnyOf [Str ''Phone'', Str ''Mobile'', Str ''Tel'', Str ''Contact''], Plus Space, AnyOf [Str ''No'', Str ''Number''], Opt (Lit CHR ''.''), Star Space, Opt (Chr (\<lambda>c. c = CHR '':'' \<or> c = CHR ''='')), Star Space, Digit]),
      (True, Seq [Bol, Str ''Email'', Star Space, Chr (\<lambda>c. c = CHR '':'' \<or> c = CHR ''='')])]"

definition kotak_getPatterns :: patterns where
  "kotak_getPatterns =
     \<lparr>transaction = kotak_transaction, headers = kotak_headers,
      continuation = kotak_continuation, personalInfo = kotak_personalInfo\<rparr>"

subsection \<open>ICICI\<close>

text \<open>\<^verbatim>\<open>transaction: /^\s*(?:\d+\s+)?\d{2}\/\d{2}\/\d{4}\s+\d{2}\/\d{2}\/\d{4}/\<close>\<close>

definition icici_transaction :: regexp where
  "icici_transaction =
     (False, Seq [Bol, Star Space, Opt (Seq [Plus Digit, Plus Space]), Times 2 Digit, Lit CHR ''/'', Times 2 Digit, Lit CHR ''/'', Times 4 Digit, Plus Space, Times 2 Digit, Lit CHR ''/'', Times 2 Digit, Lit CHR ''/'', Times 4 Digit])"

text \<open>headers:
  \<^verbatim>\<open>/DETAILED\s+STATEMENT/i\<close>
  \<^verbatim>\<open>/Transactions\s+List/i\<close>
  \<^verbatim>\<open>/Account\s+Number/i\<close>
  \<^verbatim>\<open>/^S\s+No\./i\<close>
  \<^verbatim>\<open>/^Value\s+Date/i\<close>
  \<^verbatim>\<open>/^Transaction\s+Date/i\<close>
  \<^verbatim>\<open>/^Withdrawal\s+Amount/i\<close>
  \<^verbatim>\<open>/^Deposit\s+Amount/i\<close>
  \<^verbatim>\<open>/^Balance\s+\(INR\s+\)/i\<close>
  \<^verbatim>\<open>/ICICI\s+Bank/i\<close>
\<close>

definition icici_headers :: "regexp list" where
  "icici_headers =
     [(True, Seq [Str ''DETAILED'', Plus Space, Str ''STATEMENT'']),
      (True, Seq [Str ''Transactions'', Plus Space, Str ''List'']),
      (True, Seq [Str ''Account'', Plus Space, Str ''Number'']),
      (True, Seq [Bol, Lit CHR ''S'', Plus Space, Str ''No.'']),
      (True, Seq [Bol, Str ''Value'', Plus Space, Str ''Date'']),
      (True, Seq [Bol, Str ''Transaction'', Plus Space, Str ''Date'']),
      (True, Seq [Bol, Str ''Withdrawal'', Plus Space, Str ''Amount'']),
      (True, Seq [Bol, Str ''Deposit'', Plus Space, Str ''Amount'']),
      (True, Seq [Bol, Str ''Balance'', Plus Space, Str ''(INR'', Plus Space, Lit CHR '')'']),
      (True, Seq [Str ''ICICI'', Plus Space, Str ''Bank''])]"

text \<open>continuation:
  \<^verbatim>\<open>/@[A-Z0-9\-]+/\<close>
  \<^verbatim>\<open>/[A-Z]{3,}BANK/i\<close>
  \<^verbatim>\<open>/\b\d{12,}\b/\<close>
  \<^verbatim>\<open>/\b[A-Z0-9]{15,}\b/\<close>
  \<^verbatim>\<open>/^\s*[a-zA-Z\s\/]+$/\<close>
\<close>

definition icici_continuation :: "regexp list" where
  "icici_continuation =
     [(False, Seq [Lit CHR ''@'', Plus (Chr (\<lambda>c. isUpper c \<or> isDigit c \<or> c = CHR ''-''))]),
      (True, Seq [AtLeast 3 (Chr (\<lambda>c. isUpper c)), Str ''BANK'']),
      (False, Seq [Wb, AtLeast 12 Digit, Wb]),
      (False, Seq [Wb, AtLeast 15 (Chr (\<lambda>c. isUpper c \<or> isDigit c)), Wb]),
      (False, Seq [Bol, Star Space, Plus (Chr (\<lambda>c. isLower c \<or> isUpper c \<or> isWhiteSpace c \<or> c = CHR ''/'')), Eol])]"

text \<open>The ICICI registry has no \<open>personalInfo\<close> entry, and its merger reads none.\<close>

definition icici_getPatterns :: patterns where
  "icici_getPatterns =
     \<lparr>transaction = icici_transaction, headers = icici_headers,
      continuation = icici_continuation, personalInfo = []\<rparr>"

section \<open>The record merger (\<open>cleanOCROutput\<close>)\<close>

text \<open>
  The three \<open>cleanOCROutput\<close> methods are the same pair of loops; they differ in the
  tests they apply, in how a line is appended and in how a record is pushed. The
  loops are modelled once, over a record of these parts, and each parser supplies
  its own.

  \<^item> \<open>isSkipped\<close>: the outer loop's \<open>continue\<close> test on the trimmed line;
  \<^item> \<open>isStart\<close>: \<open>patterns.transaction.test(line)\<close>;
  \<^item> \<open>isStop\<close>: the inner loop's first \<open>break\<close> test on the trimmed next line;
  \<^item> \<open>isAccepted\<close>: the inner loop's test for appending the next line;
  \<^item> \<open>appendLine\<close>: the new \<open>transactionText\<close>;
  \<^item> \<open>pushRecord\<close>: what is pushed to \<open>transactionLines\<close> after the inner loop.
\<close>

record merger =
  isSkipped :: "string \<Rightarrow> bool"
  isStart :: "string \<Rightarrow> bool"
  isStop :: "string \<Rightarrow> bool"
  isAccepted :: "string \<Rightarrow> bool"
  appendLine :: "string \<Rightarrow> string \<Rightarrow> string"
  pushRecord :: "string \<Rightarrow> string list"

text \<open>
  The inner \<open>while (j < lines.length)\<close> loop: from the accumulated text and the lines
  after the transaction line, the final text and the lines not consumed. The outer
  loop goes on at the line that stopped the inner one (\<open>i = j\<close> was set at the last
  appended line).
\<close>

fun collectContinuation :: "merger \<Rightarrow> string \<Rightarrow> string list \<Rightarrow> string \<times> string list" where
  "collectContinuation M transactionText [] = (transactionText, [])"
| "collectContinuation M transactionText (l # ls) =
     (let nextLine = trim l in
      if isStop M nextLine then (transactionText, l # ls)
      else if isAccepted M nextLine
        then collectContinuation M (appendLine M transactionText nextLine) ls
      else (transactionText, l # ls))"

lemma collectContinuation_length:
  "length (snd (collectContinuation M t ls)) \<le> length ls"
  by (induction ls arbitrary: t) (auto simp: Let_def le_SucI)

text \<open>The outer \<open>for\<close> loop: the array \<open>transactionLines\<close>.\<close>

function scanLines :: "merger \<Rightarrow> string list \<Rightarrow> string list" where
  "scanLines M [] = []"
| "scanLines M (l # ls) =
     (let line = trim l in
      if isSkipped M line then scanLines M ls
      else if isStart M line then
        pushRecord M (fst (collectContinuation M line ls)) @
        scanLines M (snd (collectContinuation M line ls))
      else scanLines M ls)"
  by pat_completeness auto
termination
  by (relation "measure (\<lambda>(M, ls). length ls)")
     (auto simp: collectContinuation_length less_Suc_eq_le)

definition newline :: char where
  "newline = CHR 0x0A"

definition cleanOCROutput :: "merger \<Rightarrow> string \<Rightarrow> string" where
  "cleanOCROutput M rawText = join [newline, newline] (scanLines M (split_char newline rawText))"

subsection \<open>HDFC\<close>

definition hdfc_isHeaderLine :: "string \<Rightarrow> bool" where
  "hdfc_isHeaderLine line = some_test (headers hdfc_getPatterns) line"

text \<open>\<^verbatim>\<open>line.length > 5 && /^[A-Z0-9@\-\s]+$/.test(line) && !isHeaderLine(line)\<close>\<close>

definition hdfc_isContinuationLine :: "string \<Rightarrow> bool" where
  "hdfc_isContinuationLine line =
     (some_test (continuation hdfc_getPatterns) line \<or>
      (length line > 5 \<and>
       re_test (False, Seq [Bol, Plus (Chr (\<lambda>c. isUpper c \<or> isDigit c \<or> c = CHR ''@'' \<or> c = CHR ''-'' \<or> isWhiteSpace c)), Eol]) line \<and>
       \<not> hdfc_isHeaderLine line))"

definition hdfc_isPersonalInfoLine :: "string \<Rightarrow> bool" where
  "hdfc_isPersonalInfoLine line = some_test (personalInfo hdfc_getPatterns) line"

text \<open>\<^verbatim>\<open>/\d{1,3}(?:,\d{3})*(?:\.\d{2})?/.test(line) || /\d{2}\/\d{2}\/\d{2}/.test(line)\<close>\<close>

definition hdfc_isLikelyTransactionData :: "string \<Rightarrow> bool" where
  "hdfc_isLikelyTransactionData line =
     (re_test (False, Seq [Between 1 3 Digit, Star (Seq [Lit CHR '','', Times 3 Digit]), Opt (Seq [Lit CHR ''.'', Times 2 Digit])]) line \<or>
      re_test (False, Seq [Times 2 Digit, Lit CHR ''/'', Times 2 Digit, Lit CHR ''/'', Times 2 Digit]) line)"

definition hdfc_merger :: merger where
  "hdfc_merger =
     \<lparr>isSkipped = (\<lambda>line. line = [] \<or> hdfc_isHeaderLine line \<or> hdfc_isPersonalInfoLine line),
      isStart = (\<lambda>line. re_test (transaction hdfc_getPatterns) line),
      isStop = (\<lambda>nextLine. nextLine = [] \<or> re_test (transaction hdfc_getPatterns) nextLine \<or>
                  hdfc_isHeaderLine nextLine),
      isAccepted = (\<lambda>nextLine. hdfc_isContinuationLine nextLine \<or>
                  (hdfc_isLikelyTransactionData nextLine \<and> length nextLine < 100)),
      appendLine = (\<lambda>transactionText nextLine. transactionText @ nextLine),
      pushRecord = (\<lambda>transactionText. [transactionText])\<rparr>"

subsection \<open>Kotak\<close>

definition kotak_isHeaderLine :: "string \<Rightarrow> bool" where
  "kotak_isHeaderLine line = some_test (headers kotak_getPatterns) line"

definition kotak_isContinuationLine :: "string \<Rightarrow> bool" where
  "kotak_isContinuationLine line = some_test (continuation kotak_getPatterns) line"

definition kotak_isPersonalInfoLine :: "string \<Rightarrow> bool" where
  "kotak_isPersonalInfoLine line = some_test (personalInfo kotak_getPatterns) line"

text \<open>
  \<^verbatim>\<open>/UPI-\d+/\<close>, \<^verbatim>\<open>/IMPS-\d+/\<close>, \<^verbatim>\<open>/NEFTINW-\d+/\<close>, \<^verbatim>\<open>/MB-\d+/\<close>,
  \<^verbatim>\<open>/BF-[a-z0-9]+/\<close>, \<^verbatim>\<open>/\d+\.\d{2}\((Cr|Dr)\)/\<close>
\<close>

definition kotak_hasTransactionElements :: "string \<Rightarrow> bool" where
  "kotak_hasTransactionElements line =
     (re_test (False, Seq [Str ''UPI-'', Plus Digit]) line \<or>
      re_test (False, Seq [Str ''IMPS-'', Plus Digit]) line \<or>
      re_test (False, Seq [Str ''NEFTINW-'', Plus Digit]) line \<or>
      re_test (False, Seq [Str ''MB-'', Plus Digit]) line \<or>
      re_test (False, Seq [Str ''BF-'', Plus (Chr (\<lambda>c. isLower c \<or> isDigit c))]) line \<or>
      re_test (False, Seq [Plus Digit, Lit CHR ''.'', Times 2 Digit, Lit CHR ''('', AnyOf [Str ''Cr'', Str ''Dr''], Lit CHR '')'']) line)"

text \<open>
  After the inner loop the Kotak merger normalises the text
  (\<^verbatim>\<open>transactionText.replace(/\s+/g, ' ').trim()\<close>) and pushes it when it is not empty.
\<close>

definition kotak_merger :: merger where
  "kotak_merger =
     \<lparr>isSkipped = (\<lambda>line. line = [] \<or> kotak_isHeaderLine line \<or> kotak_isPersonalInfoLine line),
      isStart = (\<lambda>line. re_test (transaction kotak_getPatterns) line),
      isStop = (\<lambda>nextLine. nextLine = [] \<or> re_test (transaction kotak_getPatterns) nextLine \<or>
                  kotak_isHeaderLine nextLine),
      isAccepted = (\<lambda>nextLine. kotak_isContinuationLine nextLine \<or>
                  (kotak_hasTransactionElements nextLine \<and> length nextLine < 150)),
      appendLine = (\<lambda>transactionText nextLine. transactionText @ '' '' @ nextLine),
      pushRecord = (\<lambda>transactionText.
                  (let normalized = trim (collapseWhiteSpace transactionText)
                   in if normalized \<noteq> [] then [normalized] else []))\<rparr>"

subsection \<open>ICICI\<close>

definition icici_isHeaderLine :: "string \<Rightarrow> bool" where
  "icici_isHeaderLine line = some_test (headers icici_getPatterns) line"

text \<open>The ICICI inner loop appends every line that does not stop it.\<close>

definition icici_merger :: merger where
  "icici_merger =
     \<lparr>isSkipped = (\<lambda>line. line = [] \<or> icici_isHeaderLine line),
      isStart = (\<lambda>line. re_test (transaction icici_getPatterns) line),
      isStop = (\<lambda>nextLine. nextLine = [] \<or> re_test (transaction icici_getPatterns) nextLine \<or>
                  icici_isHeaderLine nextLine),
      isAccepted = (\<lambda>nextLine. True),
      appendLine = (\<lambda>transactionText nextLine. transactionText @ '' '' @ nextLine),
      pushRecord = (\<lambda>transactionText. [transactionText])\<rparr>"

text \<open>The three methods.\<close>

definition hdfc_cleanOCROutput :: "string \<Rightarrow> string" where
  "hdfc_cleanOCROutput rawText = cleanOCROutput hdfc_merger rawText"

definition kotak_cleanOCROutput :: "string \<Rightarrow> string" where
  "kotak_cleanOCROutput rawText = cleanOCROutput kotak_merger rawText"

definition icici_cleanOCROutput :: "string \<Rightarrow> string" where
  "icici_cleanOCROutput rawText = cleanOCROutput icici_merger rawText"

subsection \<open>Transaction-start lines\<close>

text \<open>
  A transaction-start line: it matches the transaction pattern and no header or
  personal-information pattern.
\<close>

definition isTransactionStart :: "patterns \<Rightarrow> string \<Rightarrow> bool" where
  "isTransactionStart P line =
     (re_test (transaction P) line \<and> \<not> some_test (headers P) line \<and>
      \<not> some_test (personalInfo P) line)"

text \<open>A text whose first character is not white space.\<close>

definition startsVisible :: "string \<Rightarrow> bool" where
  "startsVisible t = (case t of [] \<Rightarrow> False | c # _ \<Rightarrow> \<not> isWhiteSpace c)"

section \<open>JavaScript numbers\<close>

text \<open>
  A Number is an IEEE 754 double: not-a-number, an infinity, or a finite value,
  which is kept as the rational it denotes. The two zeros are identified; no
  operation used by the parsers (comparison, \<open>Math.abs\<close>, \<open>toFixed\<close>) tells them
  apart. \<open>round_double q\<close> is the double nearest to \<open>q\<close>, ties to the even
  significand: 53 bits of significand, the smallest exponent of the unit in the last
  place is \<open>-1074\<close>, and a result of magnitude \<open>2^1024\<close> or more is an infinity.
\<close>

datatype jsnum = NaN | PosInf | NegInf | Fin rat

definition pow2 :: "int \<Rightarrow> rat" where
  "pow2 k = (if 0 \<le> k then 2 ^ nat k else 1 / 2 ^ nat (- k))"

definition pow10 :: "int \<Rightarrow> rat" where
  "pow10 k = (if 0 \<le> k then 10 ^ nat k else 1 / 10 ^ nat (- k))"

text \<open>For \<open>q > 0\<close>, the \<open>k\<close> with \<open>2^k \<le> q < 2^(k+1)\<close>.\<close>

definition floor_log2 :: "rat \<Rightarrow> int" where
  "floor_log2 q =
     (let k = bitlen (fst (quotient_of q)) - bitlen (snd (quotient_of q))
      in if pow2 k \<le> q then k else k - 1)"

definition roundTiesToEven :: "rat \<Rightarrow> int" where
  "roundTiesToEven q =
     (let f = \<lfloor>q\<rfloor>; d = q - of_int f
      in if d < 1 / 2 then f else if 1 / 2 < d then f + 1 else if even f then f else f + 1)"

text \<open>
  With \<open>m\<close> the rounded significand and \<open>e\<close> the exponent of its unit, the magnitude
  \<open>m * 2^e\<close> reaches \<open>2^1024\<close> exactly when \<open>m\<close> has more than \<open>1024 - e\<close> bits.
\<close>

definition round_double :: "rat \<Rightarrow> jsnum" where
  "round_double q =
     (if q = 0 then Fin 0
      else (let a = \<bar>q\<bar>;
                e = max (floor_log2 a - 52) (- 1074);
                m = roundTiesToEven (a / pow2 e)
            in if 1024 - e < bitlen m then (if q < 0 then NegInf else PosInf)
               else Fin (if q < 0 then - (of_int m * pow2 e) else of_int m * pow2 e)))"

fun js_neg :: "jsnum \<Rightarrow> jsnum" where
  "js_neg NaN = NaN"
| "js_neg PosInf = NegInf"
| "js_neg NegInf = PosInf"
| "js_neg (Fin q) = Fin (- q)"

fun js_add :: "jsnum \<Rightarrow> jsnum \<Rightarrow> jsnum" where
  "js_add (Fin a) (Fin b) = round_double (a + b)"
| "js_add NaN y = NaN"
| "js_add x NaN = NaN"
| "js_add PosInf NegInf = NaN"
| "js_add NegInf PosInf = NaN"
| "js_add PosInf y = PosInf"
| "js_add NegInf y = NegInf"
| "js_add (Fin a) y = y"

definition js_sub :: "jsnum \<Rightarrow> jsnum \<Rightarrow> jsnum" where
  "js_sub x y = js_add x (js_neg y)"

fun js_abs :: "jsnum \<Rightarrow> jsnum" where
  "js_abs NaN = NaN"
| "js_abs PosInf = PosInf"
| "js_abs NegInf = PosInf"
| "js_abs (Fin q) = Fin \<bar>q\<bar>"

text \<open>\<open>x < y\<close>, \<open>x > y\<close> and \<open>x === y\<close> on numbers.\<close>

fun js_lt :: "jsnum \<Rightarrow> jsnum \<Rightarrow> bool" where
  "js_lt (Fin a) (Fin b) = (a < b)"
| "js_lt NaN y = False"
| "js_lt x NaN = False"
| "js_lt PosInf y = False"
| "js_lt x NegInf = False"
| "js_lt NegInf y = True"
| "js_lt (Fin a) PosInf = True"

definition js_gt :: "jsnum \<Rightarrow> jsnum \<Rightarrow> bool" where
  "js_gt x y = js_lt y x"

definition js_eq :: "jsnum \<Rightarrow> jsnum \<Rightarrow> bool" where
  "js_eq x y = (x \<noteq> NaN \<and> x = y)"

text \<open>A number that is not \<open>NaN\<close> and not below zero.\<close>

fun js_nonneg :: "jsnum \<Rightarrow> bool" where
  "js_nonneg (Fin q) = (0 \<le> q)"
| "js_nonneg PosInf = True"
| "js_nonneg NegInf = False"
| "js_nonneg NaN = False"

subsection \<open>\<open>parseFloat\<close>\<close>

text \<open>
  \<open>parseFloat(s)\<close>: leading white space is skipped, then the longest prefix that is
  a decimal literal is read (a sign, then \<open>Infinity\<close>, or digits with an optional
  fraction and an optional exponent); \<open>NaN\<close> when there is none. The value is the
  double nearest to the decimal value read (for literals of more than 20 significant
  digits ECMAScript lets an implementation round less exactly; the model rounds
  exactly).
\<close>

definition digitsValue :: "string \<Rightarrow> int" where
  "digitsValue ds = foldl (\<lambda>a c. 10 * a + (of_char c - 48)) 0 ds"

text \<open>The exponent part at the head of a text, 0 when there is none.\<close>

definition parseExponent :: "string \<Rightarrow> int" where
  "parseExponent r =
     (case r of
        [] \<Rightarrow> 0
      | c # r1 \<Rightarrow>
          if c = CHR ''e'' \<or> c = CHR ''E'' then
            (case r1 of
               [] \<Rightarrow> 0
             | s # r2 \<Rightarrow>
                 if s = CHR ''-'' then - digitsValue (takeWhile isDigit r2)
                 else if s = CHR ''+'' then digitsValue (takeWhile isDigit r2)
                 else digitsValue (takeWhile isDigit r1))
          else 0)"

definition parseFloat :: "string \<Rightarrow> jsnum" where
  "parseFloat s =
     (let t = dropWhile isWhiteSpace s;
          neg = (case t of [] \<Rightarrow> False | c # _ \<Rightarrow> c = CHR ''-'');
          u = (case t of [] \<Rightarrow> [] | c # r \<Rightarrow> if c = CHR ''-'' \<or> c = CHR ''+'' then r else t)
      in if take 8 u = ''Infinity'' then (if neg then NegInf else PosInf)
         else (let ip = takeWhile isDigit u;
                   r1 = dropWhile isDigit u;
                   fp = (case r1 of [] \<Rightarrow> [] | c # r \<Rightarrow> if c = CHR ''.'' then takeWhile isDigit r else []);
                   r2 = (case r1 of [] \<Rightarrow> [] | c # r \<Rightarrow> if c = CHR ''.'' then dropWhile isDigit r else r1)
               in if ip = [] \<and> fp = [] then NaN
                  else (let mv = of_int (digitsValue (ip @ fp)) * pow10 (parseExponent r2 - int (length fp))
                        in round_double (if neg then - mv else mv))))"

subsection \<open>\<open>toFixed(2)\<close>\<close>

text \<open>
  \<open>x.toFixed(2)\<close>. For a finite \<open>x\<close> below \<open>10^21\<close> in magnitude: the integer \<open>n\<close>
  with \<open>n / 100\<close> nearest to the magnitude (the larger of two), written in decimal
  with at least three digits, a point before the last two, and a minus sign when
  \<open>x < 0\<close>. At \<open>10^21\<close> and above the result is \<open>Number::toString\<close>, whose last digit
  ECMAScript leaves to the implementation; that function is a parameter of the model.
\<close>

function digitsOf :: "int \<Rightarrow> string" where
  "digitsOf n = (if n < 10 then [char_of (48 + n)] else digitsOf (n div 10) @ [char_of (48 + n mod 10)])"
  by pat_completeness auto
termination
  by (relation "measure nat") auto

declare digitsOf.simps [simp del]

definition toFixed2 :: "(rat \<Rightarrow> string) \<Rightarrow> jsnum \<Rightarrow> string" where
  "toFixed2 bigToString x =
     (case x of
        NaN \<Rightarrow> ''NaN''
      | PosInf \<Rightarrow> ''Infinity''
      | NegInf \<Rightarrow> ''-Infinity''
      | Fin q \<Rightarrow>
          if 10 ^ 21 \<le> \<bar>q\<bar> then bigToString q
          else (let m = digitsOf \<lfloor>\<bar>q\<bar> * 100 + 1 / 2\<rfloor>;
                    m' = (if length m \<le> 2 then replicate (3 - length m) CHR ''0'' @ m else m)
                in (if q < 0 then ''-'' else []) @
                   take (length m' - 2) m' @ ''.'' @ drop (length m' - 2) m'))"

section \<open>Global matching and replacement\<close>

text \<open>
  \<open>s.match(re)\<close> and \<open>s.replace(re, rep)\<close> for a regular expression with the \<open>g\<close>
  flag: the matches are taken from left to right, each search starting where the
  previous match ended, and after an empty match one character further. The
  functions take the text before the current position (reversed) and the text from
  it on; \<open>rx_match_all ic r [] s\<close> is the array of matched texts,
  \<open>rx_replace_all ic r rep [] s\<close> the new string.
\<close>

function rx_match_all :: "bool \<Rightarrow> rx \<Rightarrow> string \<Rightarrow> string \<Rightarrow> string list" where
  "rx_match_all ic r seen rest =
     (case rxm ic r (seen, rest) of
        [] \<Rightarrow> (case rest of [] \<Rightarrow> [] | c # cs \<Rightarrow> rx_match_all ic r (c # seen) cs)
      | cu # _ \<Rightarrow>
          if advances (seen, rest) cu
          then between (seen, rest) cu # rx_match_all ic r (fst cu) (snd cu)
          else [] # (case rest of [] \<Rightarrow> [] | c # cs \<Rightarrow> rx_match_all ic r (c # seen) cs))"
  by pat_completeness auto
termination
  by (relation "measure (\<lambda>(ic, r, seen, rest). length rest)") (auto simp: advances_def)

function rx_replace_all :: "bool \<Rightarrow> rx \<Rightarrow> string \<Rightarrow> string \<Rightarrow> string \<Rightarrow> string" where
  "rx_replace_all ic r rep seen rest =
     (case rxm ic r (seen, rest) of
        [] \<Rightarrow> (case rest of [] \<Rightarrow> [] | c # cs \<Rightarrow> c # rx_replace_all ic r rep (c # seen) cs)
      | cu # _ \<Rightarrow>
          if advances (seen, rest) cu
          then rep @ rx_replace_all ic r rep (fst cu) (snd cu)
          else rep @ (case rest of [] \<Rightarrow> [] | c # cs \<Rightarrow> c # rx_replace_all ic r rep (c # seen) cs))"
  by pat_completeness auto
termination
  by (relation "measure (\<lambda>(ic, r, rep, seen, rest). length rest)") (auto simp: advances_def)

declare rx_match_all.simps [simp del] rx_replace_all.simps [simp del]

definition replace_g :: "regexp \<Rightarrow> string \<Rightarrow> string \<Rightarrow> string" where
  "replace_g re rep s = rx_replace_all (fst re) (snd re) rep [] s"

text \<open>\<open>s.replace(pat, '')\<close> for a string \<open>pat\<close>: the first occurrence is removed.\<close>

fun removeFirst :: "string \<Rightarrow> string \<Rightarrow> string" where
  "removeFirst pat [] = []"
| "removeFirst pat (c # cs) =
     (if take (length pat) (c # cs) = pat then drop (length pat) (c # cs)
      else c # removeFirst pat cs)"

text \<open>\<open>s.split(/\s+/)\<close>: the pieces between the runs of white space (the piece so
  far is kept reversed).\<close>

function splitWhiteSpace :: "string \<Rightarrow> string \<Rightarrow> string list" where
  "splitWhiteSpace cur [] = [rev cur]"
| "splitWhiteSpace cur (c # cs) =
     (if isWhiteSpace c then rev cur # splitWhiteSpace [] (dropWhile isWhiteSpace cs)
      else splitWhiteSpace (c # cur) cs)"
  by pat_completeness auto
termination
  by (relation "measure (\<lambda>(cur, rest). length rest)")
     (auto simp: less_Suc_eq_le length_dropWhile_le)

section \<open>Categorized transactions\<close>

text \<open>
  A line of the categorized text, \<open>date | description | amount | TYPE\<close>, before the
  template literal puts it together; the type is one of the strings \<open>DEBIT\<close>,
  \<open>CREDIT\<close> and \<open>UNKNOWN\<close>. The HDFC categorizer also passes lines through that
  it could not parse.
\<close>

record categorized =
  date :: string
  description :: string
  amount :: string
  txType :: string

datatype outLine = Unparsed string | Categorized categorized

definition formatCategorized :: "categorized \<Rightarrow> string" where
  "formatCategorized c = date c @ '' | '' @ description c @ '' | '' @ amount c @ '' | '' @ txType c"

fun renderLine :: "outLine \<Rightarrow> string" where
  "renderLine (Unparsed l) = l"
| "renderLine (Categorized c) = formatCategorized c"

text \<open>\<open>simplifiedText.split('\n').filter(line => line.trim())\<close>\<close>

definition nonBlankLines :: "string \<Rightarrow> string list" where
  "nonBlankLines text = filter (\<lambda>line. trim line \<noteq> []) (split_char newline text)"

text \<open>The money token \<^verbatim>\<open>[\d,]+\.\d{2}\<close> and the separator \<^verbatim>\<open>\s*\|\s*\<close>.\<close>

definition moneyToken :: rx where
  "moneyToken = Seq [Plus (Chr (\<lambda>c. isDigit c \<or> c = CHR '','')), Lit CHR ''.'', Times 2 Digit]"

definition pipeSeparator :: rx where
  "pipeSeparator = Seq [Star Space, Lit CHR ''|'', Star Space]"

text \<open>The literal \<open>0.01\<close>.\<close>

definition tolerance :: jsnum where
  "tolerance = round_double (1 / 100)"

section \<open>HDFC: \<open>categorizeTransactions\<close> (balance reconciliation)\<close>

text \<open>
  \<^verbatim>\<open>/^(\d{2}\/\d{2}\/\d{2})\s*\|\s*(.+?)\s*\|\s*([\d,]+\.\d{2})\s+([\d,]+\.\d{2})$/\<close>
  as a sequence of pieces; pieces 1, 3, 5 and 7 are the capture groups (date,
  description, amount, balance).
\<close>

definition hdfc_simplifiedLine :: "rx list" where
  "hdfc_simplifiedLine =
     [Bol,
      Seq [Times 2 Digit, Lit CHR ''/'', Times 2 Digit, Lit CHR ''/'', Times 2 Digit],
      pipeSeparator,
      PlusLazy Dot,
      pipeSeparator,
      moneyToken,
      Plus Space,
      moneyToken,
      Eol]"

definition hdfc_match :: "string \<Rightarrow> (string \<times> string \<times> string \<times> string) option" where
  "hdfc_match line =
     (case rx_exec False hdfc_simplifiedLine line of
        None \<Rightarrow> None
      | Some bs \<Rightarrow> Some (piece bs 1, piece bs 3, piece bs 5, piece bs 7))"

text \<open>The branch \<open>i === 0\<close>: the type of the first line, from the line after it.\<close>

definition hdfc_firstType :: "string list \<Rightarrow> jsnum \<Rightarrow> string" where
  "hdfc_firstType lines currentBalanceNum =
     (if 0 + 1 < length lines then
        (case hdfc_match (trim (lines ! (0 + 1))) of
           Some (nextDate, nextDesc, nextAmount, nextBalance) \<Rightarrow>
             (let nextBalanceNum = parseFloat (removeCommas nextBalance);
                  balanceDiff = js_sub currentBalanceNum nextBalanceNum;
                  nextAmountNum = parseFloat (removeCommas nextAmount)
              in if js_lt (js_abs (js_sub balanceDiff nextAmountNum)) tolerance \<and>
                    js_gt currentBalanceNum nextBalanceNum
                 then ''CREDIT'' else ''DEBIT'')
         | None \<Rightarrow> ''UNKNOWN'')
      else ''UNKNOWN'')"

text \<open>The branch \<open>i > 0\<close>: the type of line \<open>i\<close>, from the line before it.\<close>

definition hdfc_laterType :: "string list \<Rightarrow> nat \<Rightarrow> jsnum \<Rightarrow> jsnum \<Rightarrow> string" where
  "hdfc_laterType lines i currentAmountNum currentBalanceNum =
     (case hdfc_match (trim (lines ! (i - 1))) of
        Some (prevDate, prevDesc, prevAmount, prevBalance) \<Rightarrow>
          (let prevBalanceNum = parseFloat (removeCommas prevBalance);
               expectedBalanceIfDebit = js_sub prevBalanceNum currentAmountNum;
               expectedBalanceIfCredit = js_add prevBalanceNum currentAmountNum;
               debitDiff = js_abs (js_sub expectedBalanceIfDebit currentBalanceNum);
               creditDiff = js_abs (js_sub expectedBalanceIfCredit currentBalanceNum)
           in if js_lt debitDiff creditDiff \<and> js_lt debitDiff tolerance then ''DEBIT''
              else if js_lt creditDiff debitDiff \<and> js_lt creditDiff tolerance then ''CREDIT''
              else if js_lt currentBalanceNum prevBalanceNum then ''DEBIT'' else ''CREDIT'')
      | None \<Rightarrow> ''UNKNOWN'')"

text \<open>The body of the loop at index \<open>i\<close>: what is pushed to \<open>categorizedLines\<close>.\<close>

definition hdfc_categorizeAt :: "(rat \<Rightarrow> string) \<Rightarrow> string list \<Rightarrow> nat \<Rightarrow> outLine list" where
  "hdfc_categorizeAt bigToString lines i =
     (let currentLine = trim (lines ! i) in
      if currentLine = [] then []
      else (case hdfc_match currentLine of
              None \<Rightarrow> [Unparsed currentLine]
            | Some (currentDate, currentDesc, currentAmount, currentBalance) \<Rightarrow>
                (let currentBalanceNum = parseFloat (removeCommas currentBalance);
                     currentAmountNum = parseFloat (removeCommas currentAmount);
                     transactionType =
                       (if i = 0 then hdfc_firstType lines currentBalanceNum
                        else hdfc_laterType lines i currentAmountNum currentBalanceNum);
                     formatAmount = toFixed2 bigToString (js_abs currentAmountNum)
                 in [Categorized \<lparr>date = currentDate, description = currentDesc,
                       amount = formatAmount, txType = transactionType\<rparr>])))"

definition hdfc_categorizedLines :: "(rat \<Rightarrow> string) \<Rightarrow> string \<Rightarrow> outLine list" where
  "hdfc_categorizedLines bigToString simplifiedText =
     (if trim simplifiedText = [] then []
      else (let lines = nonBlankLines simplifiedText
            in concat (map (hdfc_categorizeAt bigToString lines) [0..<length lines])))"

definition hdfc_categorizeTransactions :: "(rat \<Rightarrow> string) \<Rightarrow> string \<Rightarrow> string" where
  "hdfc_categorizeTransactions bigToString simplifiedText =
     join [newline, newline] (map renderLine (hdfc_categorizedLines bigToString simplifiedText))"

section \<open>HDFC: \<open>parseTransactionLine\<close> and \<open>cleanOCROutputSimplified\<close>\<close>

text \<open>\<open>extractCurrencyAmounts\<close> of \<open>BaseParser\<close>:
  \<^verbatim>\<open>text.match(/(\d{1,3}(?:,\d{3})*\.\d{2})/g) || []\<close>\<close>

definition extractCurrencyAmounts :: "string \<Rightarrow> string list" where
  "extractCurrencyAmounts text =
     rx_match_all False
       (Seq [Between 1 3 Digit, Star (Seq [Lit CHR '','', Times 3 Digit]), Lit CHR ''.'', Times 2 Digit])
       [] text"

text \<open>
  The clean-up of the description: the chain of \<open>replace\<close> calls, in order.
  \<^verbatim>\<open>/(\d{2}\/\d{2}\/\d{2})/g\<close>, \<^verbatim>\<open>/\|/g\<close>, \<^verbatim>\<open>/\bUPL-/g\<close>, \<^verbatim>\<open>/@[A-Z0-9\-]+/g\<close>,
  \<^verbatim>\<open>/-KKBK\d+/g\<close>, \<^verbatim>\<open>/-UPI$/g\<close>, \<^verbatim>\<open>/-UPT$/g\<close>, \<^verbatim>\<open>/-PAY$/g\<close>, \<^verbatim>\<open>/AIR-BANK/g\<close>,
  \<^verbatim>\<open>/[A-Z0-9]{10,}/g\<close> are removed, then \<^verbatim>\<open>/\s+/g\<close> becomes one space.
\<close>

definition hdfc_removedFromDescription :: "regexp list" where
  "hdfc_removedFromDescription =
     [(False, Seq [Times 2 Digit, Lit CHR ''/'', Times 2 Digit, Lit CHR ''/'', Times 2 Digit]),
      (False, Lit CHR ''|''),
      (False, Seq [Wb, Str ''UPL-'']),
      (False, Seq [Lit CHR ''@'', Plus (Chr (\<lambda>c. isUpper c \<or> isDigit c \<or> c = CHR ''-''))]),
      (False, Seq [Str ''-KKBK'', Plus Digit]),
      (False, Seq [Str ''-UPI'', Eol]),
      (False, Seq [Str ''-UPT'', Eol]),
      (False, Seq [Str ''-PAY'', Eol]),
      (False, Str ''AIR-BANK''),
      (False, AtLeast 10 (Chr (\<lambda>c. isUpper c \<or> isDigit c)))]"

definition hdfc_cleanDescription :: "string \<Rightarrow> string" where
  "hdfc_cleanDescription d =
     trim (collapseWhiteSpace (foldl (\<lambda>s re. replace_g re [] s) d hdfc_removedFromDescription))"

text \<open>\<open>parseTransactionLine\<close>: \<open>None\<close> is the \<open>null\<close> of the source.\<close>

definition hdfc_parseTransactionLine :: "(rat \<Rightarrow> string) \<Rightarrow> string \<Rightarrow> string option" where
  "hdfc_parseTransactionLine bigToString transactionLine =
     (let normalized = normalizeWhitespace transactionLine in
      case rx_exec False
             [Bol, Seq [Times 2 Digit, Lit CHR ''/'', Times 2 Digit, Lit CHR ''/'', Times 2 Digit]]
             normalized of
        None \<Rightarrow> None
      | Some bs \<Rightarrow>
          (let date = piece bs 1;
               currencyMatches = extractCurrencyAmounts normalized
           in if length currencyMatches < 2 then None
              else (let amount = currencyMatches ! (length currencyMatches - 2);
                        balance = currencyMatches ! (length currencyMatches - 1);
                        description =
                          hdfc_cleanDescription
                            (trim (removeFirst balance (removeFirst amount (removeFirst date normalized))));
                        absoluteAmount =
                          toFixed2 bigToString (js_abs (parseFloat (removeCommas amount)))
                    in Some (date @ '' | '' @ description @ '' | '' @ absoluteAmount @ '' '' @ balance))))"

text \<open>\<open>cleanOCROutputSimplified\<close>: the array \<open>simplifiedLines\<close>, and the text returned.\<close>

definition hdfc_simplifiedLines :: "(rat \<Rightarrow> string) \<Rightarrow> string \<Rightarrow> string list" where
  "hdfc_simplifiedLines bigToString rawText =
     List.map_filter (hdfc_parseTransactionLine bigToString) (nonBlankLines rawText)"

definition hdfc_cleanOCROutputSimplified :: "(rat \<Rightarrow> string) \<Rightarrow> string \<Rightarrow> string" where
  "hdfc_cleanOCROutputSimplified bigToString rawText =
     join [newline, newline] (hdfc_simplifiedLines bigToString rawText)"

text \<open>The test of \<open>parseTransactionLine\<close> for a date at the start of the normalized
  line: \<^verbatim>\<open>normalized.match(/^(\d{2}\/\d{2}\/\d{2})/)\<close> is not \<open>null\<close>.\<close>

definition hdfc_dateAtStart :: "string \<Rightarrow> bool" where
  "hdfc_dateAtStart normalized =
     (rx_exec False
        [Bol, Seq [Times 2 Digit, Lit CHR ''/'', Times 2 Digit, Lit CHR ''/'', Times 2 Digit]]
        normalized \<noteq> None)"

section \<open>Kotak: \<open>categorizeTransactions\<close> (explicit marker)\<close>

text \<open>
  \<^verbatim>\<open>/^(\d{2}-\d{2}-\d{4})\s*\|\s*(.+?)\s*\|\s*([\d,]+\.\d{2})\((Cr|Dr)\)/\<close>; pieces 1, 3,
  5 and 7 are the capture groups (date, description, amount, type indicator).
\<close>

definition kotak_simplifiedLine :: "rx list" where
  "kotak_simplifiedLine =
     [Bol,
      Seq [Times 2 Digit, Lit CHR ''-'', Times 2 Digit, Lit CHR ''-'', Times 4 Digit],
      pipeSeparator,
      PlusLazy Dot,
      pipeSeparator,
      moneyToken,
      Lit CHR ''('',
      AnyOf [Str ''Cr'', Str ''Dr''],
      Lit CHR '')'']"

definition kotak_categorizeLine :: "string \<Rightarrow> categorized option" where
  "kotak_categorizeLine line =
     (case rx_exec False kotak_simplifiedLine line of
        None \<Rightarrow> None
      | Some bs \<Rightarrow>
          Some \<lparr>date = piece bs 1, description = trim (piece bs 3), amount = piece bs 5,
                txType = (if piece bs 7 = ''Cr'' then ''CREDIT'' else ''DEBIT'')\<rparr>)"

definition kotak_categorizedLines :: "string \<Rightarrow> categorized list" where
  "kotak_categorizedLines simplifiedText =
     (if trim simplifiedText = [] then []
      else List.map_filter kotak_categorizeLine (nonBlankLines simplifiedText))"

definition kotak_categorizeTransactions :: "string \<Rightarrow> string" where
  "kotak_categorizeTransactions simplifiedText =
     join [newline, newline] (map formatCategorized (kotak_categorizedLines simplifiedText))"

section \<open>ICICI: \<open>categorizeTransactions\<close> (column position)\<close>

text \<open>
  The direction and the amount from the two columns: \<open>withdrawalNum > 0 &&
  depositNum === 0\<close> gives \<open>DEBIT\<close> and the withdrawal token, \<open>depositNum > 0 &&
  withdrawalNum === 0\<close> gives \<open>CREDIT\<close> and the deposit token, anything else leaves
  \<open>UNKNOWN\<close> and \<open>0.00\<close>.
\<close>

definition icici_direction :: "string \<Rightarrow> string \<Rightarrow> string \<times> string" where
  "icici_direction withdrawalAmount depositAmount =
     (let withdrawalNum = parseFloat (removeCommas withdrawalAmount);
          depositNum = parseFloat (removeCommas depositAmount)
      in if js_gt withdrawalNum (Fin 0) \<and> js_eq depositNum (Fin 0) then (''DEBIT'', withdrawalAmount)
         else if js_gt depositNum (Fin 0) \<and> js_eq withdrawalNum (Fin 0) then (''CREDIT'', depositAmount)
         else (''UNKNOWN'', ''0.00''))"

text \<open>
  The clean-up of the description: \<^verbatim>\<open>/\/UPI\/[A-Z\s]+BANK/gi\<close>, \<^verbatim>\<open>/\b\d{10,}\b/g\<close> are
  removed, \<^verbatim>\<open>/[a-zA-Z0-9.\-_]+@[a-zA-Z0-9]+/g\<close> becomes a space,
  \<^verbatim>\<open>/\b[A-Z0-9]{15,}\b/g\<close> is removed, \<^verbatim>\<open>/\s+/g\<close> becomes one space; then
  \<^verbatim>\<open>.split(/[\/-]/)[0]\<close> keeps the text before the first slash or hyphen, and
  \<open>trim\<close>. An empty description is replaced by \<open>Transaction\<close>.
\<close>

definition icici_cleanDescription :: "string \<Rightarrow> string" where
  "icici_cleanDescription d =
     (let d1 = replace_g (True, Seq [Str ''/UPI/'', Plus (Chr (\<lambda>c. isUpper c \<or> isWhiteSpace c)), Str ''BANK'']) [] d;
          d2 = replace_g (False, Seq [Wb, AtLeast 10 Digit, Wb]) [] d1;
          d3 = replace_g (False, Seq [Plus (Chr (\<lambda>c. isLower c \<or> isUpper c \<or> isDigit c \<or> c = CHR ''.'' \<or> c = CHR ''-'' \<or> c = CHR ''_'')), Lit CHR ''@'', Plus (Chr (\<lambda>c. isLower c \<or> isUpper c \<or> isDigit c))]) '' '' d2;
          d4 = replace_g (False, Seq [Wb, AtLeast 15 (Chr (\<lambda>c. isUpper c \<or> isDigit c)), Wb]) [] d3;
          d5 = collapseWhiteSpace d4
      in trim (takeWhile (\<lambda>c. c \<noteq> CHR ''/'' \<and> c \<noteq> CHR ''-'') d5))"

text \<open>The body of the loop: \<open>None\<close> where the source says \<open>continue\<close>.\<close>

definition icici_categorizeLine :: "string \<Rightarrow> categorized option" where
  "icici_categorizeLine line =
     (let parts = split_char CHR ''|'' line in
      if length parts < 3 then None
      else (let date = trim (parts ! 0);
                description = trim (parts ! 1);
                amountsPart = trim (parts ! 2);
                amounts = splitWhiteSpace [] amountsPart
            in if length amounts < 3 then None
               else (let withdrawalAmount = amounts ! 0;
                         depositAmount = amounts ! 1;
                         cleaned = icici_cleanDescription description
                     in Some \<lparr>date = date,
                              description = (if cleaned = [] then ''Transaction'' else cleaned),
                              amount = snd (icici_direction withdrawalAmount depositAmount),
                              txType = fst (icici_direction withdrawalAmount depositAmount)\<rparr>)))"

definition icici_categorizedLines :: "string \<Rightarrow> categorized list" where
  "icici_categorizedLines simplifiedText =
     (if trim simplifiedText = [] then []
      else List.map_filter icici_categorizeLine (split_char newline simplifiedText))"

definition icici_categorizeTransactions :: "string \<Rightarrow> string" where
  "icici_categorizeTransactions simplifiedText =
     join [newline, newline] (map formatCategorized (icici_categorizedLines simplifiedText))"

text \<open>The texts of the money token: digits and commas, a point, two digits.\<close>

definition isMoney :: "string \<Rightarrow> bool" where
  "isMoney w = (\<exists>ds d1 d2. w = ds @ [CHR ''.'', d1, d2] \<and> (\<forall>c \<in> set ds. isDigit c \<or> c = CHR '','') \<and>
     isDigit d1 \<and> isDigit d2)"

section \<open>The parser factory (components/parsers/index.js)\<close>

datatype parser = HDFCParser | KotakParser | ICICIParser

datatype js_error = Error string

text \<open>
  \<open>getParser(docCode)\<close> for a string argument. \<open>!docCode\<close> holds for the empty
  string only; a \<open>throw\<close> is the \<open>Inl\<close> branch. The constructors of the three
  subclasses pass the abstract-class check of \<open>BaseParser\<close> and do not throw.
\<close>

definition getParser :: "string \<Rightarrow> js_error + parser" where
  "getParser docCode =
     (if docCode = [] then Inl (Error ''Document code cannot be empty.'')
      else (let u = toUpperCase docCode in
        if u = ''HDFC'' then Inr HDFCParser
        else if u = ''KOTAK'' then Inr KotakParser
        else if u = ''ICICI'' then Inr ICICIParser
        else Inl (Error (''Parser not implemented for code: '' @ docCode))))"

definition getSupportedBanks :: "string list" where
  "getSupportedBanks = [''HDFC'', ''KOTAK'', ''ICICI'']"

section \<open>Properties of the factory\<close>

lemma toUpperCase_Nil: "toUpperCase [] = []"
  by (simp add: toUpperCase_def)

lemma toUpperCase_supported:
  "toUpperCase ''HDFC'' = ''HDFC''" "toUpperCase ''KOTAK'' = ''KOTAK''"
  "toUpperCase ''ICICI'' = ''ICICI''"
  by (simp_all add: toUpperCase_def toUpperCase_char_def)

lemma toUpperCase_not_Nil: "s \<noteq> [] \<Longrightarrow> toUpperCase s \<noteq> []"
  by (cases s) (auto simp: toUpperCase_def toUpperCase_char_def Let_def)

text \<open>
  Claim C9. A code that is empty, or whose upper-casing is none of the registered
  codes, makes \<open>getParser\<close> throw: the result is an error and no parser; the
  unregistered code \<open>SBI\<close> is such a code.
\<close>

theorem getParser_unsupported_throws:
  assumes "docCode = [] \<or> toUpperCase docCode \<notin> set getSupportedBanks"
  shows "\<exists>e. getParser docCode = Inl e"
  using assms by (auto simp: getParser_def getSupportedBanks_def Let_def)

theorem getParser_unsupported_throws_witness:
  "toUpperCase ''SBI'' \<notin> set getSupportedBanks \<and>
   getParser ''SBI'' = Inl (Error ''Parser not implemented for code: SBI'') \<and>
   (\<exists>e. getParser ''SBI'' = Inl e) \<and> (\<exists>e. getParser [] = Inl e)"
proof -
  have u: "toUpperCase ''SBI'' \<notin> set getSupportedBanks"
    by (simp add: toUpperCase_def toUpperCase_char_def getSupportedBanks_def)
  have "\<exists>e. getParser ''SBI'' = Inl e"
    using getParser_unsupported_throws [of "''SBI''"] u by blast
  moreover have "\<exists>e. getParser [] = Inl e"
    using getParser_unsupported_throws [of "[]"] by blast
  moreover have "getParser ''SBI'' = Inl (Error ''Parser not implemented for code: SBI'')"
    by (simp add: getParser_def toUpperCase_def toUpperCase_char_def)
  ultimately show ?thesis using u by blast
qed

text \<open>
  Claim C10. Selection is case-insensitive: \<open>getParser s\<close> returns a parser exactly
  when the upper-casing of \<open>s\<close> is a registered code, and then it returns what
  \<open>getParser\<close> returns on the upper-cased code.
\<close>

theorem getParser_case_insensitive:
  "((\<exists>p. getParser s = Inr p) \<longleftrightarrow> toUpperCase s \<in> set getSupportedBanks) \<and>
   (toUpperCase s \<in> set getSupportedBanks \<longrightarrow> getParser (toUpperCase s) = getParser s)"
proof (cases "s = []")
  case True
  then show ?thesis
    by (simp add: getParser_def getSupportedBanks_def toUpperCase_Nil)
next
  case False
  then have "toUpperCase s \<noteq> []" by (rule toUpperCase_not_Nil)
  with False show ?thesis
    by (auto simp: getParser_def getSupportedBanks_def Let_def toUpperCase_supported)
qed

theorem getParser_case_insensitive_witness:
  "toUpperCase ''hdfc'' = ''HDFC'' \<and> getParser ''hdfc'' = Inr HDFCParser \<and>
   getParser ''HDFC'' = Inr HDFCParser \<and> getParser ''Kotak'' = Inr KotakParser \<and>
   getParser ''KOTAK'' = Inr KotakParser"
proof -
  have u: "toUpperCase ''hdfc'' = ''HDFC''" "toUpperCase ''Kotak'' = ''KOTAK''"
    by code_simp+
  have h: "getParser ''hdfc'' = Inr HDFCParser"
    by (simp add: getParser_def u)
  have k: "getParser ''Kotak'' = Inr KotakParser"
    by (simp add: getParser_def u)
  from getParser_case_insensitive [of "''hdfc''"] u h
  have "getParser ''HDFC'' = Inr HDFCParser"
    by (simp add: getSupportedBanks_def)
  moreover from getParser_case_insensitive [of "''Kotak''"] u k
  have "getParser ''KOTAK'' = Inr KotakParser"
    by (simp add: getSupportedBanks_def)
  ultimately show ?thesis using u h k by simp
qed


section \<open>Properties of the record merger\<close>

lemma trim_hd_not_space: "trim l \<noteq> [] \<Longrightarrow> \<not> isWhiteSpace (hd (trim l))"
proof -
  assume ne: "trim l \<noteq> []"
  let ?Y = "dropWhile isWhiteSpace l"
  let ?X = "dropWhile isWhiteSpace (rev ?Y)"
  from ne have X: "?X \<noteq> []" by (simp add: trim_def)
  then have Y: "?Y \<noteq> []" by (metis dropWhile.simps(1) rev.simps(1))
  have "hd (trim l) = last ?X" using X by (simp add: trim_def hd_rev)
  also have "\<dots> = last (rev ?Y)"
    using X by (metis last_appendR takeWhile_dropWhile_id)
  also have "\<dots> = hd ?Y" using Y by (simp add: last_rev)
  finally show ?thesis using Y hd_dropWhile by metis
qed

lemma trim_Cons_not_space: "\<not> isWhiteSpace c \<Longrightarrow> trim (c # cs) \<noteq> []"
  by (auto simp: trim_def dropWhile_eq_Nil_conv)

lemma startsVisible_trim: "trim l \<noteq> [] \<Longrightarrow> startsVisible (trim l)"
  using trim_hd_not_space [of l] by (cases "trim l") (auto simp: startsVisible_def)

lemma startsVisible_append: "startsVisible t \<Longrightarrow> startsVisible (t @ u)"
  by (cases t) (auto simp: startsVisible_def)

lemma startsVisible_normalized:
  "startsVisible t \<Longrightarrow> trim (collapseWhiteSpace t) \<noteq> []"
  by (cases t) (auto simp: startsVisible_def collapseWhiteSpace_def trim_Cons_not_space)

lemma collectContinuation_fst:
  assumes "\<And>t n. G t \<Longrightarrow> G (appendLine M t n)" "G t"
  shows "G (fst (collectContinuation M t ls))"
  using assms(2) by (induction ls arbitrary: t) (auto simp: Let_def assms(1))

lemma collectContinuation_filter:
  assumes "\<And>x. Q x \<Longrightarrow> isStop M (trim x)"
  shows "filter Q (snd (collectContinuation M t ls)) = filter Q ls"
  by (induction ls arbitrary: t) (auto simp: Let_def dest: assms)

lemma length_scanLines:
  assumes stop: "\<And>x. isStart M x \<Longrightarrow> isStop M x"
    and G1: "\<And>l. \<not> isSkipped M (trim l) \<Longrightarrow> G (trim l)"
    and G2: "\<And>t n. G t \<Longrightarrow> G (appendLine M t n)"
    and G3: "\<And>t. G t \<Longrightarrow> length (pushRecord M t) = 1"
  shows "length (scanLines M ls) =
         length (filter (\<lambda>l. \<not> isSkipped M (trim l) \<and> isStart M (trim l)) ls)"
  using assms
proof (induction M ls rule: scanLines.induct)
  case (1 M)
  then show ?case by simp
next
  case (2 M l ls)
  let ?Q = "\<lambda>l. \<not> isSkipped M (trim l) \<and> isStart M (trim l)"
  let ?c = "collectContinuation M (trim l) ls"
  show ?case
  proof (cases "isSkipped M (trim l)")
    case True
    with "2.IH"(1) [OF refl True "2.prems"] show ?thesis by simp
  next
    case skip: False
    show ?thesis
    proof (cases "isStart M (trim l)")
      case True
      have "G (fst ?c)"
        using "2.prems"(3) "2.prems"(2) [OF skip] by (rule collectContinuation_fst)
      then have one: "length (pushRecord M (fst ?c)) = 1" by (rule "2.prems"(4))
      have rest: "filter ?Q (snd ?c) = filter ?Q ls"
        by (rule collectContinuation_filter) (simp add: "2.prems"(1))
      have "length (scanLines M (snd ?c)) = length (filter ?Q (snd ?c))"
        by (rule "2.IH"(2) [OF refl skip True "2.prems"])
      with one rest skip True show ?thesis by (simp add: Let_def)
    next
      case False
      with "2.IH"(3) [OF refl skip False "2.prems"] skip show ?thesis by simp
    qed
  qed
qed

lemma transaction_not_empty:
  "\<not> re_test hdfc_transaction []" "\<not> re_test kotak_transaction []"
  "\<not> re_test icici_transaction []"
  by code_simp+

lemma hdfc_start:
  "(\<not> isSkipped hdfc_merger line \<and> isStart hdfc_merger line) = isTransactionStart hdfc_getPatterns line"
  using transaction_not_empty(1)
  by (auto simp: hdfc_merger_def isTransactionStart_def hdfc_getPatterns_def
      hdfc_isHeaderLine_def hdfc_isPersonalInfoLine_def)

lemma kotak_start:
  "(\<not> isSkipped kotak_merger line \<and> isStart kotak_merger line) = isTransactionStart kotak_getPatterns line"
  using transaction_not_empty(2)
  by (auto simp: kotak_merger_def isTransactionStart_def kotak_getPatterns_def
      kotak_isHeaderLine_def kotak_isPersonalInfoLine_def)

lemma icici_start:
  "(\<not> isSkipped icici_merger line \<and> isStart icici_merger line) = isTransactionStart icici_getPatterns line"
  using transaction_not_empty(3)
  by (auto simp: icici_merger_def isTransactionStart_def icici_getPatterns_def
      icici_isHeaderLine_def)

text \<open>
  Claim C3. Each of the three mergers pushes exactly one record for every
  transaction-start line of its input, and nothing else: the number of merged
  records is the number of lines that (trimmed) match the parser's transaction
  pattern and none of its header and personal-information patterns, whatever
  lines stand between them.
\<close>

theorem merge_completeness:
  "length (scanLines hdfc_merger lines) =
     length (filter (\<lambda>l. isTransactionStart hdfc_getPatterns (trim l)) lines) \<and>
   length (scanLines kotak_merger lines) =
     length (filter (\<lambda>l. isTransactionStart kotak_getPatterns (trim l)) lines) \<and>
   length (scanLines icici_merger lines) =
     length (filter (\<lambda>l. isTransactionStart icici_getPatterns (trim l)) lines)"
proof -
  have h: "length (scanLines hdfc_merger lines) =
      length (filter (\<lambda>l. \<not> isSkipped hdfc_merger (trim l) \<and> isStart hdfc_merger (trim l)) lines)"
    by (rule length_scanLines [where G = "\<lambda>t. True"]) (simp_all add: hdfc_merger_def)
  have k: "length (scanLines kotak_merger lines) =
      length (filter (\<lambda>l. \<not> isSkipped kotak_merger (trim l) \<and> isStart kotak_merger (trim l)) lines)"
  proof (rule length_scanLines [where G = startsVisible])
    show "isStart kotak_merger x \<Longrightarrow> isStop kotak_merger x" for x
      by (simp add: kotak_merger_def)
    show "\<not> isSkipped kotak_merger (trim l) \<Longrightarrow> startsVisible (trim l)" for l
      by (rule startsVisible_trim) (simp add: kotak_merger_def)
    show "startsVisible t \<Longrightarrow> startsVisible (appendLine kotak_merger t n)" for t n
      by (simp add: kotak_merger_def startsVisible_append)
    show "startsVisible t \<Longrightarrow> length (pushRecord kotak_merger t) = 1" for t
      by (simp add: kotak_merger_def Let_def startsVisible_normalized)
  qed
  have i: "length (scanLines icici_merger lines) =
      length (filter (\<lambda>l. \<not> isSkipped icici_merger (trim l) \<and> isStart icici_merger (trim l)) lines)"
    by (rule length_scanLines [where G = "\<lambda>t. True"]) (simp_all add: icici_merger_def)
  show ?thesis
    using h k i by (simp only: hdfc_start kotak_start icici_start)
qed

text \<open>Two transaction-start lines with continuation lines between them, a header
  and a blank line: two records.\<close>

lemma hdfc_cleanOCROutput_example:
  "hdfc_cleanOCROutput (''HDFC BANK'' @ [newline] @ ''01/01/24|x'' @ [newline] @ ''@B'' @ [newline] @
      [newline] @ ''02/01/24|y'') =
   ''01/01/24|x@B'' @ [newline, newline] @ ''02/01/24|y''"
  by code_simp

text \<open>
  Claim C4. A line whose trimmed text matches a header pattern of the active
  registry is treated as a header whatever else it matches, a continuation pattern
  included: while a record is accumulating it stops the inner loop and is not
  appended (the text and the remaining lines are returned as they are), and while
  no record is accumulating it is skipped.
\<close>

theorem header_priority:
  "(hdfc_isHeaderLine (trim l) \<longrightarrow>
      collectContinuation hdfc_merger text (l # ls) = (text, l # ls) \<and>
      scanLines hdfc_merger (l # ls) = scanLines hdfc_merger ls) \<and>
   (kotak_isHeaderLine (trim l) \<longrightarrow>
      collectContinuation kotak_merger text (l # ls) = (text, l # ls) \<and>
      scanLines kotak_merger (l # ls) = scanLines kotak_merger ls) \<and>
   (icici_isHeaderLine (trim l) \<longrightarrow>
      collectContinuation icici_merger text (l # ls) = (text, l # ls) \<and>
      scanLines icici_merger (l # ls) = scanLines icici_merger ls)"
  by (simp add: hdfc_merger_def kotak_merger_def icici_merger_def)

theorem header_priority_witness:
  "hdfc_isHeaderLine ''HDFC BANK@A'' \<and> hdfc_isContinuationLine ''HDFC BANK@A'' \<and>
   collectContinuation hdfc_merger ''01/01/24|x'' [''HDFC BANK@A'', ''@B''] =
     (''01/01/24|x'', [''HDFC BANK@A'', ''@B'']) \<and>
   scanLines hdfc_merger [''HDFC BANK@A''] = [] \<and>
   kotak_isHeaderLine ''/Payment BANK'' \<and> kotak_isContinuationLine ''/Payment BANK'' \<and>
   collectContinuation kotak_merger ''01-01-2024 x'' [''/Payment BANK''] =
     (''01-01-2024 x'', [''/Payment BANK'']) \<and>
   scanLines kotak_merger [''/Payment BANK''] = []"
proof -
  have t: "trim ''HDFC BANK@A'' = ''HDFC BANK@A''" "trim ''/Payment BANK'' = ''/Payment BANK''"
    by code_simp+
  have h: "hdfc_isHeaderLine ''HDFC BANK@A''" by code_simp
  have hc: "hdfc_isContinuationLine ''HDFC BANK@A''" by code_simp
  have k: "kotak_isHeaderLine ''/Payment BANK''" by code_simp
  have kc: "kotak_isContinuationLine ''/Payment BANK''" by code_simp
  have e: "scanLines hdfc_merger [] = []" "scanLines kotak_merger [] = []" by simp_all
  from header_priority [of "''HDFC BANK@A''" "''01/01/24|x''" "[''@B'']"] h t
  have 1: "collectContinuation hdfc_merger ''01/01/24|x'' [''HDFC BANK@A'', ''@B''] =
     (''01/01/24|x'', [''HDFC BANK@A'', ''@B''])" by simp
  from header_priority [of "''HDFC BANK@A''" "[]" "[]"] h t e
  have 2: "scanLines hdfc_merger [''HDFC BANK@A''] = []" by simp
  from header_priority [of "''/Payment BANK''" "''01-01-2024 x''" "[]"] k t e
  have 3: "collectContinuation kotak_merger ''01-01-2024 x'' [''/Payment BANK''] =
     (''01-01-2024 x'', [''/Payment BANK''])"
    and 4: "scanLines kotak_merger [''/Payment BANK''] = []" by simp_all
  from h hc k kc 1 2 3 4 show ?thesis by simp
qed

text \<open>A header line between two continuation lines ends the record, and the
  continuation line after it is not attached to anything.\<close>

lemma header_terminates_record:
  "scanLines hdfc_merger [''01/01/24|x'', ''@B'', ''HDFC BANK@A'', ''@C''] = [''01/01/24|x@B'']"
  by code_simp

text \<open>
  Claim C8 as stated fails for the HDFC and ICICI mergers. The HDFC merger appends
  an accepted line directly, with no separator, and neither the HDFC nor the ICICI
  merger normalises the white space of the record.
\<close>

theorem append_step_counterexample:
  "\<not> isStop hdfc_merger (trim ''@B'') \<and> isAccepted hdfc_merger (trim ''@B'') \<and>
   collectContinuation hdfc_merger ''01/01/24|x'' [''@B''] = (''01/01/24|x@B'', []) \<and>
   ''01/01/24|x@B'' \<noteq> ''01/01/24|x'' @ '' '' @ ''@B'' \<and>
   scanLines hdfc_merger [''01/01/24|x'', ''@B''] = [''01/01/24|x@B''] \<and>
   scanLines icici_merger [''01/04/2024 01/04/2024  a'', ''b  c''] =
     [''01/04/2024 01/04/2024  a b  c'']"
  by code_simp

text \<open>
  Claim C8, amended. While a record is accumulating, a next line that does not stop
  the inner loop and is accepted as continuation or plausible data is appended to
  the text: by the Kotak merger after a single space, and the record it pushes is
  the text with every run of white space replaced by one space and trimmed (when
  that is not empty); by the ICICI merger after a single space (it accepts every
  line that does not stop the loop) and the record is pushed as it is; by the HDFC
  merger directly after the text, and the record is pushed as it is.
\<close>

theorem append_step:
  "(\<not> isStop kotak_merger (trim l) \<and> isAccepted kotak_merger (trim l) \<longrightarrow>
      collectContinuation kotak_merger text (l # ls) =
      collectContinuation kotak_merger (text @ '' '' @ trim l) ls) \<and>
   pushRecord kotak_merger text =
     (if normalizeWhitespace text = [] then [] else [normalizeWhitespace text]) \<and>
   (\<not> isStop icici_merger (trim l) \<longrightarrow>
      collectContinuation icici_merger text (l # ls) =
      collectContinuation icici_merger (text @ '' '' @ trim l) ls) \<and>
   pushRecord icici_merger text = [text] \<and>
   (\<not> isStop hdfc_merger (trim l) \<and> isAccepted hdfc_merger (trim l) \<longrightarrow>
      collectContinuation hdfc_merger text (l # ls) =
      collectContinuation hdfc_merger (text @ trim l) ls) \<and>
   pushRecord hdfc_merger text = [text]"
  by (simp add: hdfc_merger_def kotak_merger_def icici_merger_def normalizeWhitespace_def Let_def)

theorem append_step_witness:
  "collectContinuation kotak_merger ''01-01-2024  a'' ['' from   Ph ''] =
     (''01-01-2024  a from   Ph'', []) \<and>
   pushRecord kotak_merger ''01-01-2024  a from   Ph'' = [''01-01-2024 a from Ph''] \<and>
   collectContinuation icici_merger ''01/04/2024 01/04/2024 a'' ['' b '', []] =
     (''01/04/2024 01/04/2024 a b'', [[]]) \<and>
   collectContinuation hdfc_merger ''01/01/24|x'' ['' @B ''] = (''01/01/24|x@B'', [])"
proof -
  have t: "trim '' from   Ph '' = ''from   Ph''" "trim '' b '' = ''b''" "trim '' @B '' = ''@B''"
    "trim [] = []"
    by code_simp+
  have k: "\<not> isStop kotak_merger ''from   Ph'' \<and> isAccepted kotak_merger ''from   Ph''"
    by code_simp
  have i: "\<not> isStop icici_merger ''b''" "isStop icici_merger []"
    by code_simp+
  have h: "\<not> isStop hdfc_merger ''@B'' \<and> isAccepted hdfc_merger ''@B''"
    by code_simp
  have n: "normalizeWhitespace ''01-01-2024  a from   Ph'' = ''01-01-2024 a from Ph''"
    by code_simp
  from append_step [of "'' from   Ph ''" "''01-01-2024  a''" "[]"] k t
  have 1: "collectContinuation kotak_merger ''01-01-2024  a'' ['' from   Ph ''] =
     (''01-01-2024  a from   Ph'', [])" by simp
  from append_step [of l "''01-01-2024  a from   Ph''" ls for l ls] n
  have 2: "pushRecord kotak_merger ''01-01-2024  a from   Ph'' = [''01-01-2024 a from Ph'']"
    by simp
  from append_step [of "'' b ''" "''01/04/2024 01/04/2024 a''" "[[]]"] i t
  have 3: "collectContinuation icici_merger ''01/04/2024 01/04/2024 a'' ['' b '', []] =
     (''01/04/2024 01/04/2024 a b'', [[]])" by simp
  from append_step [of "'' @B ''" "''01/01/24|x''" "[]"] h t
  have 4: "collectContinuation hdfc_merger ''01/01/24|x'' ['' @B ''] = (''01/01/24|x@B'', [])"
    by simp
  from 1 2 3 4 show ?thesis by simp
qed

section \<open>Properties of the HDFC categorizer\<close>

lemma hdfc_match_Nil: "hdfc_match [] = None"
  by code_simp

text \<open>
  Claim C1, amended. For a record \<open>i > 0\<close> that parses and whose previous simplified
  line parses, with \<open>debitDiff = |(balance[i-1] - amount[i]) - balance[i]|\<close> and
  \<open>creditDiff = |(balance[i-1] + amount[i]) - balance[i]|\<close> in double arithmetic:
  the type is \<open>DEBIT\<close> when \<open>debitDiff\<close> is below \<open>0.01\<close> and strictly smaller than
  \<open>creditDiff\<close>, \<open>CREDIT\<close> when \<open>creditDiff\<close> is below \<open>0.01\<close> and strictly smaller
  than \<open>debitDiff\<close>, and otherwise \<open>DEBIT\<close> if the balance decreased and
  \<open>CREDIT\<close> if not; the amount is the absolute amount with two decimals. For
  balances 1000.00, 900.00, 1050.00 with amounts 100.00 and 150.00, record 1 is
  \<open>DEBIT\<close> and record 2 is \<open>CREDIT\<close> (the witness).
\<close>

theorem hdfc_balance_reconciliation:
  assumes later: "0 < i"
    and cur: "hdfc_match (trim (lines ! i)) = Some (d, desc, a, b)"
    and prev: "hdfc_match (trim (lines ! (i - 1))) = Some (pd, pdesc, pa, pb)"
  defines "amt \<equiv> parseFloat (removeCommas a)"
    and "bal \<equiv> parseFloat (removeCommas b)"
    and "prevBal \<equiv> parseFloat (removeCommas pb)"
  defines "debitDiff \<equiv> js_abs (js_sub (js_sub prevBal amt) bal)"
    and "creditDiff \<equiv> js_abs (js_sub (js_add prevBal amt) bal)"
  shows "hdfc_categorizeAt bigToString lines i =
           [Categorized \<lparr>date = d, description = desc,
              amount = toFixed2 bigToString (js_abs amt),
              txType =
                (if js_lt debitDiff creditDiff \<and> js_lt debitDiff tolerance then ''DEBIT''
                 else if js_lt creditDiff debitDiff \<and> js_lt creditDiff tolerance then ''CREDIT''
                 else if js_lt bal prevBal then ''DEBIT'' else ''CREDIT'')\<rparr>]"
proof -
  from cur have "trim (lines ! i) \<noteq> []"
    using hdfc_match_Nil by auto
  with later cur prev show ?thesis
    by (simp add: hdfc_categorizeAt_def hdfc_laterType_def Let_def amt_def bal_def prevBal_def
        debitDiff_def creditDiff_def)
qed

theorem hdfc_balance_reconciliation_witness:
  "hdfc_categorizeAt (\<lambda>q. []) [''01/01/24|A|50.00 1000.00'', ''02/01/24|B|100.00 900.00'', ''03/01/24|C|150.00 1050.00''] 1 =
     [Categorized \<lparr>date = ''02/01/24'', description = ''B'', amount = ''100.00'', txType = ''DEBIT''\<rparr>] \<and>
   hdfc_categorizeAt (\<lambda>q. []) [''01/01/24|A|50.00 1000.00'', ''02/01/24|B|100.00 900.00'', ''03/01/24|C|150.00 1050.00''] 2 =
     [Categorized \<lparr>date = ''03/01/24'', description = ''C'', amount = ''150.00'', txType = ''CREDIT''\<rparr>]"
proof -
  let ?L = "[''01/01/24|A|50.00 1000.00'', ''02/01/24|B|100.00 900.00'', ''03/01/24|C|150.00 1050.00'']"
  have m0: "hdfc_match (trim (?L ! (1 - 1))) = Some (''01/01/24'', ''A'', ''50.00'', ''1000.00'')"
    by code_simp
  have m1: "hdfc_match (trim (?L ! 1)) = Some (''02/01/24'', ''B'', ''100.00'', ''900.00'')"
    by code_simp
  have m1': "hdfc_match (trim (?L ! (2 - 1))) = Some (''02/01/24'', ''B'', ''100.00'', ''900.00'')"
    by code_simp
  have m2: "hdfc_match (trim (?L ! 2)) = Some (''03/01/24'', ''C'', ''150.00'', ''1050.00'')"
    by code_simp
  have p: "0 < (1::nat)" "0 < (2::nat)" by simp_all
  note t1 = hdfc_balance_reconciliation [OF p(1) m1 m0, of "\<lambda>q. []"]
  note t2 = hdfc_balance_reconciliation [OF p(2) m2 m1', of "\<lambda>q. []"]
  show ?thesis unfolding t1 t2 by code_simp
qed

text \<open>
  Claim C1 as stated fails for a record with amount 0.00 and an unchanged balance:
  \<open>|(balance[i-1] - amount[i]) - balance[i]|\<close> is 0, within the tolerance, yet the
  two differences are equal, neither is strictly smaller, and the fallback gives
  \<open>CREDIT\<close>.
\<close>

theorem hdfc_balance_reconciliation_counterexample:
  "hdfc_match ''01/01/24|A|50.00 1000.00'' = Some (''01/01/24'', ''A'', ''50.00'', ''1000.00'') \<and>
   js_lt (js_abs (js_sub (js_sub (parseFloat (removeCommas ''1000.00'')) (parseFloat (removeCommas ''0.00'')))
                         (parseFloat (removeCommas ''1000.00''))))
         tolerance \<and>
   hdfc_categorizeAt (\<lambda>q. []) [''01/01/24|A|50.00 1000.00'', ''02/01/24|B|0.00 1000.00''] 1 =
     [Categorized \<lparr>date = ''02/01/24'', description = ''B'', amount = ''0.00'', txType = ''CREDIT''\<rparr>]"
  by code_simp

text \<open>
  Claim C2, amended. The first record is resolved by looking ahead to record 1.
  When there is no record 1, or the next line does not parse, the type is
  \<open>UNKNOWN\<close>. When it parses, the type is \<open>CREDIT\<close> if the balance of record 0
  minus the balance of record 1 differs from the amount of record 1 by less than
  \<open>0.01\<close> and the balance of record 0 is the greater, and \<open>DEBIT\<close> otherwise. So
  balances 500.00, 400.00 with amount 100.00 at record 1 resolve record 0 to
  \<open>CREDIT\<close> (the witness).
\<close>

theorem hdfc_first_record:
  "hdfc_firstType lines bal =
     (if length lines \<le> 1 then ''UNKNOWN''
      else (case hdfc_match (trim (lines ! 1)) of
              None \<Rightarrow> ''UNKNOWN''
            | Some (nd, ndesc, na, nb) \<Rightarrow>
                if js_lt (js_abs (js_sub (js_sub bal (parseFloat (removeCommas nb)))
                                         (parseFloat (removeCommas na)))) tolerance \<and>
                   js_gt bal (parseFloat (removeCommas nb))
                then ''CREDIT'' else ''DEBIT'')) \<and>
   (hdfc_match (trim (lines ! 0)) = Some (d, desc, a, b) \<longrightarrow>
      hdfc_categorizeAt bigToString lines 0 =
        [Categorized \<lparr>date = d, description = desc,
           amount = toFixed2 bigToString (js_abs (parseFloat (removeCommas a))),
           txType = hdfc_firstType lines (parseFloat (removeCommas b))\<rparr>])"
proof -
  have "trim (lines ! 0) \<noteq> []" if "hdfc_match (trim (lines ! 0)) = Some (d, desc, a, b)"
    using that hdfc_match_Nil by auto
  then show ?thesis
    by (auto simp: hdfc_firstType_def hdfc_categorizeAt_def Let_def split: option.splits)
qed

text \<open>
  Claim C2 as stated fails: for balances 500.00, 400.00 and amount 100.00 at record
  1 the first record is categorized \<open>CREDIT\<close>, not \<open>DEBIT\<close>.
\<close>

theorem hdfc_first_record_counterexample:
  "hdfc_categorizedLines (\<lambda>q. []) (''01/01/24|A|50.00 500.00'' @ [newline] @ ''02/01/24|B|100.00 400.00'') =
     [Categorized \<lparr>date = ''01/01/24'', description = ''A'', amount = ''50.00'', txType = ''CREDIT''\<rparr>,
      Categorized \<lparr>date = ''02/01/24'', description = ''B'', amount = ''100.00'', txType = ''DEBIT''\<rparr>]"
  by code_simp

theorem hdfc_first_record_witness:
  "hdfc_categorizeAt (\<lambda>q. []) [''01/01/24|A|50.00 500.00'', ''02/01/24|B|100.00 400.00''] 0 =
     [Categorized \<lparr>date = ''01/01/24'', description = ''A'', amount = ''50.00'', txType = ''CREDIT''\<rparr>] \<and>
   hdfc_categorizeAt (\<lambda>q. []) [''01/01/24|A|50.00 500.00''] 0 =
     [Categorized \<lparr>date = ''01/01/24'', description = ''A'', amount = ''50.00'', txType = ''UNKNOWN''\<rparr>]"
proof -
  let ?L = "[''01/01/24|A|50.00 500.00'', ''02/01/24|B|100.00 400.00'']"
  let ?S = "[''01/01/24|A|50.00 500.00'']"
  have m: "hdfc_match (trim (?L ! 0)) = Some (''01/01/24'', ''A'', ''50.00'', ''500.00'')"
    "hdfc_match (trim (?S ! 0)) = Some (''01/01/24'', ''A'', ''50.00'', ''500.00'')"
    by code_simp+
  from hdfc_first_record [of ?L _ "''01/01/24''" "''A''" "''50.00''" "''500.00''" "\<lambda>q. []"] m(1)
  have t1: "hdfc_categorizeAt (\<lambda>q. []) ?L 0 =
        [Categorized \<lparr>date = ''01/01/24'', description = ''A'',
           amount = toFixed2 (\<lambda>q. []) (js_abs (parseFloat (removeCommas ''50.00''))),
           txType = hdfc_firstType ?L (parseFloat (removeCommas ''500.00''))\<rparr>]"
    by blast
  from hdfc_first_record [of ?S _ "''01/01/24''" "''A''" "''50.00''" "''500.00''" "\<lambda>q. []"] m(2)
  have t2: "hdfc_categorizeAt (\<lambda>q. []) ?S 0 =
        [Categorized \<lparr>date = ''01/01/24'', description = ''A'',
           amount = toFixed2 (\<lambda>q. []) (js_abs (parseFloat (removeCommas ''50.00''))),
           txType = hdfc_firstType ?S (parseFloat (removeCommas ''500.00''))\<rparr>]"
    by blast
  show ?thesis unfolding t1 t2 by code_simp
qed

section \<open>Properties of the ICICI categorizer\<close>

lemma js_eq_zero: "js_eq x (Fin 0) = (x = Fin 0)"
  by (auto simp: js_eq_def)

lemma js_gt_zero: "js_nonneg x \<Longrightarrow> js_gt x (Fin 0) = (x \<noteq> Fin 0)"
  by (cases x) (auto simp: js_gt_def)

lemma js_gt_zero_nonneg: "js_gt x (Fin 0) \<Longrightarrow> js_nonneg x"
  by (cases x) (auto simp: js_gt_def)

lemma icici_direction_cases:
  "icici_direction wa da =
     (if js_gt (parseFloat (removeCommas wa)) (Fin 0) \<and> parseFloat (removeCommas da) = Fin 0
      then (''DEBIT'', wa)
      else if js_gt (parseFloat (removeCommas da)) (Fin 0) \<and> parseFloat (removeCommas wa) = Fin 0
      then (''CREDIT'', da)
      else (''UNKNOWN'', ''0.00''))"
  by (simp add: icici_direction_def Let_def js_eq_zero)

text \<open>
  Claim C7 as stated fails for a column that is not zero and not greater than zero.
  The withdrawal token \<open>-5.00\<close> reads as \<open>-5\<close> and the token \<open>..5\<close> (which the
  amount pattern \<^verbatim>\<open>[\d,.]*\d\<close> of the ICICI simplify stage can emit) reads as
  \<open>NaN\<close>; with a zero deposit exactly one column is non-zero, yet the type is
  \<open>UNKNOWN\<close> and the amount \<open>0.00\<close>.
\<close>

theorem icici_column_position_counterexample:
  "parseFloat (removeCommas ''-5.00'') = Fin (- 5) \<and>
   parseFloat (removeCommas ''..5'') = NaN \<and>
   parseFloat (removeCommas ''0.00'') = Fin 0 \<and>
   icici_categorizeLine ''01/04/2024|a|-5.00 0.00 7,500.00'' =
     Some \<lparr>date = ''01/04/2024'', description = ''a'', amount = ''0.00'', txType = ''UNKNOWN''\<rparr> \<and>
   icici_categorizeLine ''01/04/2024|a|..5 0.00 7,500.00'' =
     Some \<lparr>date = ''01/04/2024'', description = ''a'', amount = ''0.00'', txType = ''UNKNOWN''\<rparr>"
  by code_simp

text \<open>
  Claim C7, amended. For a simplified ICICI record whose amounts part carries the
  withdrawal and the deposit column, read by \<open>parseFloat\<close> after removing the commas:
  if the withdrawal is greater than zero and the deposit is zero, the type is
  \<open>DEBIT\<close> and the amount is the withdrawal token; if the deposit is greater than
  zero and the withdrawal is zero, the type is \<open>CREDIT\<close> and the amount is the
  deposit token; in every other case (both zero, both non-zero, or a column that is
  negative or not a number) the type is \<open>UNKNOWN\<close> and the amount \<open>0.00\<close>. So for
  columns that are numbers and not negative, exactly one non-zero column decides the
  direction and supplies the amount, and both zero or both non-zero give
  \<open>UNKNOWN\<close>.
\<close>

theorem icici_column_position:
  assumes line: "icici_categorizeLine line = Some c"
  defines "amounts \<equiv> splitWhiteSpace [] (trim (split_char CHR ''|'' line ! 2))"
  defines "w \<equiv> parseFloat (removeCommas (amounts ! 0))"
    and "d \<equiv> parseFloat (removeCommas (amounts ! 1))"
  shows "(js_gt w (Fin 0) \<and> d = Fin 0 \<longrightarrow> txType c = ''DEBIT'' \<and> amount c = amounts ! 0) \<and>
         (js_gt d (Fin 0) \<and> w = Fin 0 \<longrightarrow> txType c = ''CREDIT'' \<and> amount c = amounts ! 1) \<and>
         (\<not> (js_gt w (Fin 0) \<and> d = Fin 0) \<and> \<not> (js_gt d (Fin 0) \<and> w = Fin 0) \<longrightarrow>
            txType c = ''UNKNOWN'' \<and> amount c = ''0.00'') \<and>
         (js_nonneg w \<and> js_nonneg d \<longrightarrow>
            (w \<noteq> Fin 0 \<and> d = Fin 0 \<longrightarrow> txType c = ''DEBIT'' \<and> amount c = amounts ! 0) \<and>
            (d \<noteq> Fin 0 \<and> w = Fin 0 \<longrightarrow> txType c = ''CREDIT'' \<and> amount c = amounts ! 1) \<and>
            ((w = Fin 0 \<and> d = Fin 0) \<or> (w \<noteq> Fin 0 \<and> d \<noteq> Fin 0) \<longrightarrow>
               txType c = ''UNKNOWN'' \<and> amount c = ''0.00''))"
proof -
  from line have c: "txType c = fst (icici_direction (amounts ! 0) (amounts ! 1))"
    "amount c = snd (icici_direction (amounts ! 0) (amounts ! 1))"
    by (auto simp: icici_categorizeLine_def Let_def amounts_def split: if_splits)
  have z: "\<not> js_gt (Fin 0) (Fin 0)" by (simp add: js_gt_def)
  show ?thesis
    unfolding c icici_direction_cases
    using z by (auto simp: js_gt_zero w_def d_def)
qed

theorem icici_column_position_witness:
  "icici_categorizeLine ''01/04/2024|a|100.00 0.00 5,000.00'' =
     Some \<lparr>date = ''01/04/2024'', description = ''a'', amount = ''100.00'', txType = ''DEBIT''\<rparr> \<and>
   icici_categorizeLine ''01/04/2024|a|0.00 2,500.00 7,500.00'' =
     Some \<lparr>date = ''01/04/2024'', description = ''a'', amount = ''2,500.00'', txType = ''CREDIT''\<rparr> \<and>
   icici_categorizeLine ''01/04/2024|a|0.00 0.00 7,500.00'' =
     Some \<lparr>date = ''01/04/2024'', description = ''a'', amount = ''0.00'', txType = ''UNKNOWN''\<rparr> \<and>
   icici_categorizeLine ''01/04/2024|a|1.00 2.00 7,500.00'' =
     Some \<lparr>date = ''01/04/2024'', description = ''a'', amount = ''0.00'', txType = ''UNKNOWN''\<rparr> \<and>
   icici_categorizeLine ''01/04/2024|a|-5.00 0.00 7,500.00'' =
     Some \<lparr>date = ''01/04/2024'', description = ''a'', amount = ''0.00'', txType = ''UNKNOWN''\<rparr>"
proof -
  let ?c1 = "\<lparr>date = ''01/04/2024'', description = ''a'', amount = ''100.00'', txType = ''DEBIT''\<rparr>"
  let ?c5 = "\<lparr>date = ''01/04/2024'', description = ''a'', amount = ''0.00'', txType = ''UNKNOWN''\<rparr>"
  let ?a1 = "splitWhiteSpace [] (trim (split_char CHR ''|'' ''01/04/2024|a|100.00 0.00 5,000.00'' ! 2))"
  let ?a5 = "splitWhiteSpace [] (trim (split_char CHR ''|'' ''01/04/2024|a|-5.00 0.00 7,500.00'' ! 2))"
  have e1: "icici_categorizeLine ''01/04/2024|a|100.00 0.00 5,000.00'' = Some ?c1"
    by code_simp
  have h1: "js_gt (parseFloat (removeCommas (?a1 ! 0))) (Fin 0) \<and>
      parseFloat (removeCommas (?a1 ! 1)) = Fin 0"
    by code_simp
  have e5: "icici_categorizeLine ''01/04/2024|a|-5.00 0.00 7,500.00'' = Some ?c5"
    by code_simp
  have h5: "\<not> (js_gt (parseFloat (removeCommas (?a5 ! 0))) (Fin 0) \<and>
        parseFloat (removeCommas (?a5 ! 1)) = Fin 0) \<and>
      \<not> (js_gt (parseFloat (removeCommas (?a5 ! 1))) (Fin 0) \<and>
        parseFloat (removeCommas (?a5 ! 0)) = Fin 0)"
    by code_simp
  note 1 = icici_column_position [OF e1, THEN conjunct1, THEN mp, OF h1]
  note 5 = icici_column_position [OF e5, THEN conjunct2, THEN conjunct2, THEN conjunct1, THEN mp, OF h5]
  have e2: "icici_categorizeLine ''01/04/2024|a|0.00 2,500.00 7,500.00'' =
     Some \<lparr>date = ''01/04/2024'', description = ''a'', amount = ''2,500.00'', txType = ''CREDIT''\<rparr>"
    by code_simp
  have e3: "icici_categorizeLine ''01/04/2024|a|0.00 0.00 7,500.00'' =
     Some \<lparr>date = ''01/04/2024'', description = ''a'', amount = ''0.00'', txType = ''UNKNOWN''\<rparr>"
    by code_simp
  have e4: "icici_categorizeLine ''01/04/2024|a|1.00 2.00 7,500.00'' =
     Some \<lparr>date = ''01/04/2024'', description = ''a'', amount = ''0.00'', txType = ''UNKNOWN''\<rparr>"
    by code_simp
  from 1 5 e1 e2 e3 e4 e5 show ?thesis by blast
qed


section \<open>Lines that do not parse\<close>

text \<open>
  Claim C5, amended. In the HDFC simplify stage a line whose normalized text has no
  date at its start, or fewer than two monetary tokens, yields no simplified line
  (\<open>parseTransactionLine\<close> returns \<open>null\<close>), and the stage returns exactly the
  results of the lines that parse, in order; in particular a line with monetary
  tokens and no date yields nothing (the witness). In the HDFC categorize stage a
  non-blank line that does not parse is not dropped: it is kept in the output as it
  is (trimmed). Neither stage raises an exception: the functions are total.
\<close>

theorem hdfc_unparsable_lines:
  "(\<not> hdfc_dateAtStart (normalizeWhitespace l) \<longrightarrow> hdfc_parseTransactionLine bigToString l = None) \<and>
   (length (extractCurrencyAmounts (normalizeWhitespace l)) < 2 \<longrightarrow>
      hdfc_parseTransactionLine bigToString l = None) \<and>
   hdfc_simplifiedLines bigToString rawText =
     map (\<lambda>l. the (hdfc_parseTransactionLine bigToString l))
       (filter (\<lambda>l. hdfc_parseTransactionLine bigToString l \<noteq> None) (nonBlankLines rawText)) \<and>
   (trim (lines ! i) \<noteq> [] \<and> hdfc_match (trim (lines ! i)) = None \<longrightarrow>
      hdfc_categorizeAt bigToString lines i = [Unparsed (trim (lines ! i))])"
  by (auto simp: hdfc_parseTransactionLine_def hdfc_dateAtStart_def Let_def hdfc_simplifiedLines_def
      List.map_filter_def hdfc_categorizeAt_def comp_def split: option.splits)

text \<open>
  Claim C5 as stated fails in the HDFC categorize stage: a line that does not have
  the shape of a simplified record is part of that stage's output.
\<close>

theorem hdfc_unparsable_lines_counterexample:
  "hdfc_match ''x 1.00'' = None \<and>
   hdfc_categorizedLines (\<lambda>q. []) (''01/01/24|A|50.00 500.00'' @ [newline] @ ''x 1.00'') =
     [Categorized \<lparr>date = ''01/01/24'', description = ''A'', amount = ''50.00'', txType = ''UNKNOWN''\<rparr>,
      Unparsed ''x 1.00''] \<and>
   hdfc_categorizeTransactions (\<lambda>q. []) ''x 1.00'' = ''x 1.00''"
  by code_simp

theorem hdfc_unparsable_lines_witness:
  "extractCurrencyAmounts (normalizeWhitespace ''A 1.00 2.00'') = [''1.00'', ''2.00''] \<and>
   hdfc_parseTransactionLine (\<lambda>q. []) ''A 1.00 2.00'' = None \<and>
   hdfc_parseTransactionLine (\<lambda>q. []) ''01/01/24 1.00'' = None \<and>
   hdfc_simplifiedLines (\<lambda>q. []) (''A 1.00 2.00'' @ [newline] @ ''01/01/24 B 1.00 2.00'') =
     [''01/01/24 | B | 1.00 2.00''] \<and>
   hdfc_categorizeAt (\<lambda>q. []) [''x 1.00''] 0 = [Unparsed ''x 1.00'']"
proof -
  have a: "extractCurrencyAmounts (normalizeWhitespace ''A 1.00 2.00'') = [''1.00'', ''2.00'']"
    by code_simp
  have d: "\<not> hdfc_dateAtStart (normalizeWhitespace ''A 1.00 2.00'')"
    by code_simp
  have n: "length (extractCurrencyAmounts (normalizeWhitespace ''01/01/24 1.00'')) < 2"
    by code_simp
  have u: "trim ([''x 1.00''] ! 0) = ''x 1.00''" "hdfc_match (trim ([''x 1.00''] ! 0)) = None"
    by code_simp+
  note t = hdfc_unparsable_lines [of _ "\<lambda>q. []"]
  from t [of "''A 1.00 2.00''"] d
  have 1: "hdfc_parseTransactionLine (\<lambda>q. []) ''A 1.00 2.00'' = None" by blast
  from t [of "''01/01/24 1.00''"] n
  have 2: "hdfc_parseTransactionLine (\<lambda>q. []) ''01/01/24 1.00'' = None" by blast
  note t3 = t [of "[]" "''A 1.00 2.00'' @ [newline] @ ''01/01/24 B 1.00 2.00''",
      THEN conjunct2, THEN conjunct2, THEN conjunct1]
  have 3: "hdfc_simplifiedLines (\<lambda>q. []) (''A 1.00 2.00'' @ [newline] @ ''01/01/24 B 1.00 2.00'') =
     [''01/01/24 | B | 1.00 2.00'']"
    unfolding t3 by code_simp
  from t [of "[]" "[]" "[''x 1.00'']" 0] u
  have 4: "hdfc_categorizeAt (\<lambda>q. []) [''x 1.00''] 0 = [Unparsed ''x 1.00'']" by simp
  from a 1 2 3 4 show ?thesis by simp
qed

section \<open>The amount is never negative\<close>

subsection \<open>The pieces of a match\<close>

lemma rx_pieces_sound:
  "bs \<in> set (rx_pieces ic rs cu) \<Longrightarrow>
     length bs = Suc (length rs) \<and> bs ! 0 = cu \<and>
     (\<forall>k < length rs. bs ! Suc k \<in> set (rxm ic (rs ! k) (bs ! k)))"
proof (induction rs arbitrary: cu bs)
  case Nil
  then show ?case by simp
next
  case (Cons r rs)
  from Cons.prems obtain cu' bs' where cu': "cu' \<in> set (rxm ic r cu)"
    and bs': "bs' \<in> set (rx_pieces ic rs cu')" and bs: "bs = cu # bs'"
    by auto
  from Cons.IH [OF bs'] have ih: "length bs' = Suc (length rs)" "bs' ! 0 = cu'"
    "\<forall>k < length rs. bs' ! Suc k \<in> set (rxm ic (rs ! k) (bs' ! k))"
    by simp_all
  have "bs ! Suc k \<in> set (rxm ic ((r # rs) ! k) (bs ! k))" if "k < length (r # rs)" for k
  proof (cases k)
    case 0
    with cu' ih(2) bs show ?thesis by simp
  next
    case (Suc j)
    with that ih(3) bs show ?thesis by simp
  qed
  with ih(1) bs show ?case by simp
qed

lemma rx_exec_from_sound:
  "rx_exec_from ic rs seen rest = Some bs \<Longrightarrow>
     length bs = Suc (length rs) \<and> (\<forall>k < length rs. bs ! Suc k \<in> set (rxm ic (rs ! k) (bs ! k)))"
proof (induction rest arbitrary: seen)
  case Nil
  then obtain tl where "rx_pieces ic rs (seen, []) = bs # tl"
    by (auto split: list.splits)
  then have "bs \<in> set (rx_pieces ic rs (seen, []))" by simp
  then show ?case using rx_pieces_sound by blast
next
  case (Cons c cs)
  show ?case
  proof (cases "rx_pieces ic rs (seen, c # cs)")
    case Nil
    with Cons.prems have "rx_exec_from ic rs (c # seen) cs = Some bs" by simp
    then show ?thesis by (rule Cons.IH)
  next
    case (Cons b tl)
    with Cons.prems have "bs \<in> set (rx_pieces ic rs (seen, c # cs))" by simp
    then show ?thesis using rx_pieces_sound by blast
  qed
qed

lemma rx_exec_piece:
  assumes "rx_exec ic rs s = Some bs" "k < length rs"
  shows "bs ! Suc k \<in> set (rxm ic (rs ! k) (bs ! k))"
  using assms rx_exec_from_sound unfolding rx_exec_def by blast

subsection \<open>The text of a money token\<close>

lemma between_append: "snd cu = w @ snd cu' \<Longrightarrow> between cu cu' = w"
  by (simp add: between_def)

lemma rxm_Chr_D:
  "cu' \<in> set (rxm False (Chr P) cu) \<Longrightarrow> \<exists>c. snd cu = c # snd cu' \<and> P c"
  by (cases "snd cu") (auto simp: classMatches_def split: if_splits)

lemma starGreedy_chars:
  assumes f: "\<And>a b. b \<in> set (f a) \<Longrightarrow> \<exists>c. snd a = c # snd b \<and> P c"
  shows "cu' \<in> set (starGreedy f n cu) \<Longrightarrow> \<exists>w. snd cu = w @ snd cu' \<and> (\<forall>c \<in> set w. P c)"
proof (induction n arbitrary: cu)
  case 0
  then show ?case by simp
next
  case (Suc n)
  from Suc.prems consider "cu' = cu"
    | m where "m \<in> set (f cu)" "cu' \<in> set (starGreedy f n m)"
    by auto
  then show ?case
  proof cases
    case 1
    then show ?thesis by simp
  next
    case 2
    from f [OF 2(1)] obtain c where c: "snd cu = c # snd m" "P c" by blast
    from Suc.IH [OF 2(2)] obtain w where w: "snd m = w @ snd cu'" "\<forall>c \<in> set w. P c" by blast
    from c w have "snd cu = (c # w) @ snd cu' \<and> (\<forall>x \<in> set (c # w). P x)" by simp
    then show ?thesis by blast
  qed
qed

lemma moneyToken_text:
  assumes "cu' \<in> set (rxm False moneyToken cu)"
  shows "isMoney (between cu cu')"
proof -
  let ?P = "\<lambda>c. isDigit c \<or> c = CHR '',''"
  from assms obtain c1 c2 c3 c4 where
    1: "c1 \<in> set (rxm False (Chr ?P) cu)" and
    2: "c2 \<in> set (starGreedy (rxm False (Chr ?P)) (length (snd c1)) c1)" and
    3: "c3 \<in> set (rxm False (Chr (\<lambda>x. x = CHR ''.'')) c2)" and
    4: "c4 \<in> set (rxm False (Chr isDigit) c3)" and
    5: "cu' \<in> set (rxm False (Chr isDigit) c4)"
    by (auto simp: moneyToken_def Seq_def Plus_def Lit_def Digit_def eval_nat_numeral
        simp del: rxm.simps(1))
  from rxm_Chr_D [OF 1] obtain a where a: "snd cu = a # snd c1" "?P a" by blast
  from starGreedy_chars [of "rxm False (Chr ?P)" ?P, OF rxm_Chr_D 2]
  obtain w where w: "snd c1 = w @ snd c2" "\<forall>c \<in> set w. ?P c" by blast
  from rxm_Chr_D [OF 3] have p: "snd c2 = CHR ''.'' # snd c3" by blast
  from rxm_Chr_D [OF 4] obtain d1 where d1: "snd c3 = d1 # snd c4" "isDigit d1" by blast
  from rxm_Chr_D [OF 5] obtain d2 where d2: "snd c4 = d2 # snd cu'" "isDigit d2" by blast
  from a w p d1 d2 have "snd cu = ((a # w) @ [CHR ''.'', d1, d2]) @ snd cu'" by simp
  then have "between cu cu' = (a # w) @ [CHR ''.'', d1, d2]" by (rule between_append)
  with a w d1 d2 show ?thesis unfolding isMoney_def by (intro exI [of _ "a # w"]) auto
qed

subsection \<open>Reading a money token as a number\<close>

lemma isDigit_iff: "isDigit c = (c \<in> set ''0123456789'')"
proof -
  have "c \<in> set (filter isDigit Enum.enum) = isDigit c"
    by (simp add: enum_UNIV)
  then show ?thesis by (simp only: isDigit_members)
qed

lemma isDigit_facts:
  assumes "isDigit c"
  shows "\<not> isWhiteSpace c" "c \<noteq> CHR ''-''" "c \<noteq> CHR ''+''" "c \<noteq> CHR ''I''" "c \<noteq> CHR ''.''"
    "c \<noteq> CHR '',''" "(48::int) \<le> of_char c"
  using assms unfolding isDigit_iff by (auto simp: isWhiteSpace_def)

lemma not_isDigit_point: "\<not> isDigit CHR ''.''"
  by (simp add: isDigit_iff)

lemma digitsValue_nonneg:
  assumes "\<forall>c \<in> set ds. isDigit c"
  shows "0 \<le> digitsValue ds"
proof -
  have "0 \<le> a \<Longrightarrow> \<forall>c \<in> set ds. isDigit c \<Longrightarrow>
      0 \<le> foldl (\<lambda>a c. 10 * a + (of_char c - 48)) a ds" for a :: int
  proof (induction ds arbitrary: a)
    case Nil
    then show ?case by simp
  next
    case (Cons c ds)
    from Cons.prems have "(48::int) \<le> of_char c" by (simp add: isDigit_facts)
    with Cons.prems have "0 \<le> 10 * a + (of_char c - 48)" by simp
    with Cons.IH Cons.prems show ?case by simp
  qed
  with assms show ?thesis by (simp add: digitsValue_def)
qed

lemma pow2_pos: "0 < pow2 k"
  by (simp add: pow2_def)

lemma pow10_pos: "0 < pow10 k"
  by (simp add: pow10_def)

lemma roundTiesToEven_nonneg: "0 \<le> q \<Longrightarrow> 0 \<le> roundTiesToEven q"
proof -
  assume "0 \<le> q"
  then have "0 \<le> \<lfloor>q\<rfloor>" by simp
  then show ?thesis by (simp add: roundTiesToEven_def Let_def)
qed

lemma round_double_nonneg: "0 \<le> q \<Longrightarrow> js_nonneg (round_double q)"
proof -
  assume q: "0 \<le> q"
  let ?e = "max (floor_log2 \<bar>q\<bar> - 52) (- 1074)"
  have "0 \<le> \<bar>q\<bar> / pow2 ?e" using pow2_pos [of ?e] by simp
  then have "0 \<le> roundTiesToEven (\<bar>q\<bar> / pow2 ?e)" by (rule roundTiesToEven_nonneg)
  then have "0 \<le> of_int (roundTiesToEven (\<bar>q\<bar> / pow2 ?e)) * pow2 ?e"
    using pow2_pos [of ?e] by simp
  with q show ?thesis by (simp add: round_double_def Let_def)
qed

lemma parseFloat_digits_point:
  assumes ds: "\<forall>c \<in> set ds. isDigit c" and d: "isDigit d1" "isDigit d2"
  shows "parseFloat (ds @ [CHR ''.'', d1, d2]) =
           round_double (of_int (digitsValue (ds @ [d1, d2])) * pow10 (- 2))"
proof -
  let ?s = "ds @ [CHR ''.'', d1, d2]"
  have hd: "\<not> isWhiteSpace (hd ?s)" "hd ?s \<noteq> CHR ''-''" "hd ?s \<noteq> CHR ''+''" "hd ?s \<noteq> CHR ''I''"
    using ds by (cases ds; auto simp: isDigit_facts isWhiteSpace_def)+
  obtain c cs where s: "?s = c # cs" by (cases ?s) auto
  with hd have c: "\<not> isWhiteSpace c" "c \<noteq> CHR ''-''" "c \<noteq> CHR ''+''" "c \<noteq> CHR ''I''" by simp_all
  have t: "dropWhile isWhiteSpace ?s = ?s" using s c by simp
  have neg: "(case ?s of [] \<Rightarrow> False | c # x \<Rightarrow> c = CHR ''-'') = False"
    unfolding s using c by simp
  have u: "(case ?s of [] \<Rightarrow> [] | c # r \<Rightarrow> if c = CHR ''-'' \<or> c = CHR ''+'' then r else ?s) = ?s"
    unfolding s using c by simp
  have inf: "(take 8 ?s = ''Infinity'') = False" unfolding s using c by auto
  have ip: "takeWhile isDigit ?s = ds" using ds by (simp add: takeWhile_append2 not_isDigit_point)
  have r1: "dropWhile isDigit ?s = [CHR ''.'', d1, d2]"
    using ds by (simp add: dropWhile_append2 not_isDigit_point)
  have fp: "takeWhile isDigit [d1, d2] = [d1, d2]" "dropWhile isDigit [d1, d2] = []"
    using d by simp_all
  show ?thesis
    unfolding parseFloat_def Let_def t neg u inf ip r1
    by (simp add: fp parseExponent_def del: takeWhile.simps dropWhile.simps)
qed

lemma money_nonneg:
  assumes "isMoney w"
  shows "js_nonneg (parseFloat (removeCommas w))"
proof -
  from assms obtain ds d1 d2 where w: "w = ds @ [CHR ''.'', d1, d2]"
    and ds: "\<forall>c \<in> set ds. isDigit c \<or> c = CHR '',''" and d: "isDigit d1" "isDigit d2"
    unfolding isMoney_def by blast
  let ?ds = "filter (\<lambda>c. c \<noteq> CHR '','') ds"
  have r: "removeCommas w = ?ds @ [CHR ''.'', d1, d2]"
    using d by (simp add: w removeCommas_def isDigit_facts)
  have digits: "\<forall>c \<in> set ?ds. isDigit c" using ds by auto
  then have "\<forall>c \<in> set (?ds @ [d1, d2]). isDigit c" using d by simp
  then have "0 \<le> digitsValue (?ds @ [d1, d2])" by (rule digitsValue_nonneg)
  then have "0 \<le> (of_int (digitsValue (?ds @ [d1, d2])) :: rat) * pow10 (- 2)"
    using pow10_pos [of "- 2"] by simp
  then show ?thesis
    unfolding r parseFloat_digits_point [OF digits d] by (rule round_double_nonneg)
qed

lemma money_piece_nonneg:
  assumes "rx_exec False rs s = Some bs" "k < length rs" "rs ! k = moneyToken"
  shows "js_nonneg (parseFloat (removeCommas (piece bs k)))"
proof -
  from rx_exec_piece [OF assms(1,2)] assms(3)
  have "bs ! Suc k \<in> set (rxm False moneyToken (bs ! k))" by simp
  then have "isMoney (piece bs k)" unfolding piece_def by (rule moneyToken_text)
  then show ?thesis by (rule money_nonneg)
qed


subsection \<open>The amount of a categorized transaction\<close>

lemma js_abs_nonneg: "js_nonneg x \<Longrightarrow> js_nonneg (js_abs x)"
  by (cases x) auto

lemma hdfc_match_amount:
  assumes "hdfc_match line = Some (d, desc, a, b)"
  shows "js_nonneg (parseFloat (removeCommas a))"
proof -
  from assms obtain bs where bs: "rx_exec False hdfc_simplifiedLine line = Some bs"
    and a: "a = piece bs 5"
    by (auto simp: hdfc_match_def split: option.splits)
  have "5 < length hdfc_simplifiedLine" "hdfc_simplifiedLine ! 5 = moneyToken"
    by (simp_all add: hdfc_simplifiedLine_def)
  with bs show ?thesis unfolding a by (rule money_piece_nonneg)
qed

lemma hdfc_categorizeAt_amount:
  assumes "Categorized c \<in> set (hdfc_categorizeAt bigToString lines i)"
  shows "\<exists>x. js_nonneg x \<and> amount c = toFixed2 bigToString x"
proof -
  from assms obtain d desc a b where m: "hdfc_match (trim (lines ! i)) = Some (d, desc, a, b)"
    and c: "amount c = toFixed2 bigToString (js_abs (parseFloat (removeCommas a)))"
    by (auto simp: hdfc_categorizeAt_def Let_def split: if_splits option.splits)
  from hdfc_match_amount [OF m] have "js_nonneg (js_abs (parseFloat (removeCommas a)))"
    by (rule js_abs_nonneg)
  with c show ?thesis by blast
qed

lemma kotak_categorizeLine_amount:
  assumes "kotak_categorizeLine line = Some c"
  shows "js_nonneg (parseFloat (removeCommas (amount c)))"
proof -
  from assms obtain bs where bs: "rx_exec False kotak_simplifiedLine line = Some bs"
    and a: "amount c = piece bs 5"
    by (auto simp: kotak_categorizeLine_def split: option.splits)
  have "5 < length kotak_simplifiedLine" "kotak_simplifiedLine ! 5 = moneyToken"
    by (simp_all add: kotak_simplifiedLine_def)
  with bs show ?thesis unfolding a by (rule money_piece_nonneg)
qed

lemma zero_amount: "parseFloat (removeCommas ''0.00'') = Fin 0"
  by code_simp

lemma icici_categorizeLine_amount:
  assumes "icici_categorizeLine line = Some c"
  shows "js_nonneg (parseFloat (removeCommas (amount c)))"
proof -
  from assms obtain wa da where a: "amount c = snd (icici_direction wa da)"
    by (auto simp: icici_categorizeLine_def Let_def split: if_splits)
  show ?thesis
    unfolding a icici_direction_cases
    by (auto simp: zero_amount js_gt_zero_nonneg)
qed

lemma map_filter_Some: "y \<in> set (List.map_filter f xs) \<Longrightarrow> \<exists>x \<in> set xs. f x = Some y"
  by (auto simp: List.map_filter_def)

lemma digit_char: "0 \<le> k \<Longrightarrow> k < 10 \<Longrightarrow> isDigit (char_of (48 + k))" for k :: int
proof -
  have "\<forall>k \<in> set [0..9::int]. isDigit (char_of (48 + k))"
    by code_simp
  then show "0 \<le> k \<Longrightarrow> k < 10 \<Longrightarrow> isDigit (char_of (48 + k))"
    by simp
qed

lemma digitsOf_digits: "0 \<le> n \<Longrightarrow> \<forall>c \<in> set (digitsOf n). isDigit c"
proof (induction n rule: digitsOf.induct)
  case (1 n)
  show ?case
  proof (cases "n < 10")
    case True
    with "1.prems" show ?thesis by (subst digitsOf.simps) (simp add: digit_char)
  next
    case False
    with "1.prems" have "0 \<le> n div 10" by simp
    with "1.IH" False have "\<forall>c \<in> set (digitsOf (n div 10)). isDigit c" by simp
    moreover have "isDigit (char_of (48 + n mod 10))" by (rule digit_char) simp_all
    ultimately show ?thesis using False by (subst digitsOf.simps) simp
  qed
qed

text \<open>Below \<open>10^21\<close> the two-decimal form of a number that is not negative consists
  of digits and the point: it carries no sign.\<close>

lemma toFixed2_unsigned:
  assumes "0 \<le> q" "q < 10 ^ 21"
  shows "\<forall>c \<in> set (toFixed2 bigToString (Fin q)). isDigit c \<or> c = CHR ''.''"
proof -
  let ?m = "digitsOf \<lfloor>\<bar>q\<bar> * 100 + 1 / 2\<rfloor>"
  let ?m' = "if length ?m \<le> 2 then replicate (3 - length ?m) CHR ''0'' @ ?m else ?m"
  from assms(1) have "0 \<le> \<lfloor>\<bar>q\<bar> * 100 + 1 / 2\<rfloor>" by simp
  then have m: "\<forall>c \<in> set ?m. isDigit c" by (rule digitsOf_digits)
  have z: "isDigit CHR ''0''" by (simp add: isDigit_iff)
  from m z have m': "\<forall>c \<in> set ?m'. isDigit c" by auto
  have "set (take (length ?m' - 2) ?m') \<subseteq> set ?m'" "set (drop (length ?m' - 2) ?m') \<subseteq> set ?m'"
    by (rule set_take_subset, rule set_drop_subset)
  with m' have "\<forall>c \<in> set (take (length ?m' - 2) ?m' @ ''.'' @ drop (length ?m' - 2) ?m').
      isDigit c \<or> c = CHR ''.''"
    by auto
  with assms show ?thesis
    by (simp add: toFixed2_def Let_def)
qed

text \<open>
  Claim C6. The amount field of every categorized transaction is non-negative. The
  HDFC categorizer writes the two-decimal form of \<open>Math.abs\<close> of the amount it
  read, and that number is never \<open>NaN\<close> and never below zero (so, by
  \<open>toFixed2_unsigned\<close>, the field holds digits and a point only, unless the amount
  is \<open>10^21\<close> or more). The Kotak categorizer copies the money token it matched,
  and the ICICI categorizer the column that is greater than zero, or \<open>0.00\<close>: read
  as the parsers read amounts (\<open>parseFloat\<close> after removing the commas) the field
  is a number that is not negative.
\<close>

theorem amount_non_negative:
  "(Categorized c \<in> set (hdfc_categorizedLines bigToString text) \<longrightarrow>
      (\<exists>x. js_nonneg x \<and> amount c = toFixed2 bigToString x)) \<and>
   (c \<in> set (kotak_categorizedLines text) \<longrightarrow> js_nonneg (parseFloat (removeCommas (amount c)))) \<and>
   (c \<in> set (icici_categorizedLines text) \<longrightarrow> js_nonneg (parseFloat (removeCommas (amount c))))"
proof (intro conjI impI)
  assume "Categorized c \<in> set (hdfc_categorizedLines bigToString text)"
  then obtain lines i where "Categorized c \<in> set (hdfc_categorizeAt bigToString lines i)"
    by (auto simp: hdfc_categorizedLines_def Let_def split: if_splits)
  then show "\<exists>x. js_nonneg x \<and> amount c = toFixed2 bigToString x"
    by (rule hdfc_categorizeAt_amount)
next
  assume "c \<in> set (kotak_categorizedLines text)"
  then obtain l where "kotak_categorizeLine l = Some c"
    by (auto simp: kotak_categorizedLines_def split: if_splits dest: map_filter_Some)
  then show "js_nonneg (parseFloat (removeCommas (amount c)))"
    by (rule kotak_categorizeLine_amount)
next
  assume "c \<in> set (icici_categorizedLines text)"
  then obtain l where "icici_categorizeLine l = Some c"
    by (auto simp: icici_categorizedLines_def split: if_splits dest: map_filter_Some)
  then show "js_nonneg (parseFloat (removeCommas (amount c)))"
    by (rule icici_categorizeLine_amount)
qed

theorem amount_non_negative_witness:
  "hdfc_categorizedLines (\<lambda>q. []) ''01/01/24|A|50.00 500.00'' =
     [Categorized \<lparr>date = ''01/01/24'', description = ''A'', amount = ''50.00'', txType = ''UNKNOWN''\<rparr>] \<and>
   (\<exists>x. js_nonneg x \<and> ''50.00'' = toFixed2 (\<lambda>q. []) x) \<and>
   kotak_categorizedLines ''01-04-2024|a|1,000.00(Dr)'' =
     [\<lparr>date = ''01-04-2024'', description = ''a'', amount = ''1,000.00'', txType = ''DEBIT''\<rparr>] \<and>
   js_nonneg (parseFloat (removeCommas ''1,000.00'')) \<and>
   icici_categorizedLines ''01/04/2024|a|0.00 2,500.00 7,500.00'' =
     [\<lparr>date = ''01/04/2024'', description = ''a'', amount = ''2,500.00'', txType = ''CREDIT''\<rparr>] \<and>
   js_nonneg (parseFloat (removeCommas ''2,500.00''))"
proof -
  let ?h = "\<lparr>date = ''01/01/24'', description = ''A'', amount = ''50.00'', txType = ''UNKNOWN''\<rparr>"
  let ?k = "\<lparr>date = ''01-04-2024'', description = ''a'', amount = ''1,000.00'', txType = ''DEBIT''\<rparr>"
  let ?i = "\<lparr>date = ''01/04/2024'', description = ''a'', amount = ''2,500.00'', txType = ''CREDIT''\<rparr>"
  have h: "hdfc_categorizedLines (\<lambda>q. []) ''01/01/24|A|50.00 500.00'' = [Categorized ?h]"
    by code_simp
  have k: "kotak_categorizedLines ''01-04-2024|a|1,000.00(Dr)'' = [?k]"
    by code_simp
  have i: "icici_categorizedLines ''01/04/2024|a|0.00 2,500.00 7,500.00'' = [?i]"
    by code_simp
  from amount_non_negative [of ?h "\<lambda>q. []" "''01/01/24|A|50.00 500.00''"] h
  have 1: "\<exists>x. js_nonneg x \<and> ''50.00'' = toFixed2 (\<lambda>q. []) x" by simp
  from amount_non_negative [of ?k _ "''01-04-2024|a|1,000.00(Dr)''"] k
  have 2: "js_nonneg (parseFloat (removeCommas ''1,000.00''))" by simp
  from amount_non_negative [of ?i _ "''01/04/2024|a|0.00 2,500.00 7,500.00''"] i
  have 3: "js_nonneg (parseFloat (removeCommas ''2,500.00''))" by simp
  from h k i 1 2 3 show ?thesis by blast
qed

section \<open>Checks of the number model\<close>

lemma pow2_add: "pow2 (a + b) = pow2 a * pow2 b"
proof -
  have "pow2 k = 2 powi k" for k
    by (simp add: pow2_def power_int_def field_simps)
  then show ?thesis by (simp add: power_int_add)
qed

lemma pow2_nat: "0 \<le> k \<Longrightarrow> pow2 k = 2 ^ nat k"
  by (simp add: pow2_def)

lemma pow2_mono: "a \<le> b \<Longrightarrow> pow2 a \<le> pow2 b"
proof -
  assume "a \<le> b"
  then obtain c where c: "b = a + c" "0 \<le> c" by (metis add.commute diff_add_cancel diff_ge_0_iff_ge)
  have "1 \<le> pow2 c" using c(2) by (simp add: pow2_def)
  then show ?thesis using pow2_pos [of a] by (simp add: c(1) pow2_add)
qed

text \<open>\<open>floor_log2\<close> is the exponent of the binade of a positive rational.\<close>

lemma floor_log2_bounds:
  assumes "0 < q"
  shows "pow2 (floor_log2 q) \<le> q \<and> q < pow2 (floor_log2 q + 1)"
proof -
  obtain n d where nd: "quotient_of q = (n, d)" by (cases "quotient_of q")
  then have d: "0 < d" and q: "q = of_int n / of_int d"
    using quotient_of_denom_pos quotient_of_div by auto
  with assms have n: "0 < n" by (simp add: zero_less_divide_iff)
  let ?k = "bitlen n - bitlen d"
  from bitlen_bounds [OF n] have n1: "2 ^ nat (bitlen n - 1) \<le> n" and n2: "n < 2 ^ nat (bitlen n)" by auto
  from bitlen_bounds [OF d] have d1: "2 ^ nat (bitlen d - 1) \<le> d" and d2: "d < 2 ^ nat (bitlen d)" by auto
  have bn: "0 < bitlen n" "0 < bitlen d"
    using n d bitlen_eq_zero_iff [of n] bitlen_eq_zero_iff [of d] bitlen_nonneg [of n] bitlen_nonneg [of d]
    by linarith+
  have cast_le: "(2::rat) ^ k \<le> of_int x" if "2 ^ k \<le> x" for k and x :: int
  proof -
    from that have "(of_int (2 ^ k) :: rat) \<le> of_int x" by (simp only: of_int_le_iff)
    then show ?thesis by simp
  qed
  have cast_less: "of_int x < (2::rat) ^ k" if "x < 2 ^ k" for k and x :: int
  proof -
    from that have "(of_int x :: rat) < of_int (2 ^ k)" by (simp only: of_int_less_iff)
    then show ?thesis by simp
  qed
  have N1: "pow2 (bitlen n - 1) \<le> of_int n" and N2: "of_int n < pow2 (bitlen n)"
    using cast_le [OF n1] cast_less [OF n2] bn by (simp_all add: pow2_nat)
  have D1: "pow2 (bitlen d - 1) \<le> of_int d" and D2: "of_int d < pow2 (bitlen d)"
    using cast_le [OF d1] cast_less [OF d2] bn by (simp_all add: pow2_nat)
  have up: "q < pow2 (?k + 1)"
  proof -
    have "of_int n < pow2 (bitlen n)" by (rule N2)
    also have "\<dots> = pow2 (?k + 1) * pow2 (bitlen d - 1)" by (simp flip: pow2_add)
    also have "\<dots> \<le> pow2 (?k + 1) * of_int d" using D1 pow2_pos [of "?k + 1"] by simp
    finally show ?thesis using d by (simp add: q field_simps)
  qed
  have lo: "pow2 (?k - 1) \<le> q"
  proof -
    have "pow2 (?k - 1) * of_int d \<le> pow2 (?k - 1) * pow2 (bitlen d)"
      using D2 pow2_pos [of "?k - 1"] by simp
    also have "\<dots> = pow2 (bitlen n - 1)" by (simp flip: pow2_add)
    also have "\<dots> \<le> of_int n" by (rule N1)
    finally show ?thesis using d by (simp add: q field_simps)
  qed
  show ?thesis
  proof (cases "pow2 ?k \<le> q")
    case True
    with up nd show ?thesis by (simp add: floor_log2_def Let_def)
  next
    case False
    with lo nd show ?thesis by (simp add: floor_log2_def Let_def)
  qed
qed

text \<open>The overflow test of \<open>round_double\<close> is the comparison with \<open>2^1024\<close>.\<close>

lemma overflow_test:
  assumes "0 < m"
  shows "(1024 - e < bitlen m) = (pow2 1024 \<le> of_int m * pow2 e)"
proof -
  from bitlen_bounds [OF assms] have m1: "2 ^ nat (bitlen m - 1) \<le> m" and m2: "m < 2 ^ nat (bitlen m)"
    by auto
  have bm: "0 < bitlen m"
    using assms bitlen_eq_zero_iff [of m] bitlen_nonneg [of m] by linarith
  have "(of_int (2 ^ nat (bitlen m - 1)) :: rat) \<le> of_int m" using m1 by (simp only: of_int_le_iff)
  then have M1: "pow2 (bitlen m - 1) \<le> of_int m" using bm by (simp add: pow2_nat)
  have "(of_int m :: rat) < of_int (2 ^ nat (bitlen m))" using m2 by (simp only: of_int_less_iff)
  then have M2: "of_int m < pow2 (bitlen m)" using bm by (simp add: pow2_nat)
  have split: "pow2 1024 = pow2 (1024 - e) * pow2 e" by (simp flip: pow2_add)
  show ?thesis
  proof (cases "1024 - e < bitlen m")
    case True
    then have "pow2 (1024 - e) \<le> pow2 (bitlen m - 1)" by (intro pow2_mono) simp
    with M1 have "pow2 (1024 - e) \<le> of_int m" by simp
    then have "pow2 (1024 - e) * pow2 e \<le> of_int m * pow2 e"
      using pow2_pos [of e] by simp
    with True show ?thesis by (simp add: split)
  next
    case False
    then have "pow2 (bitlen m) \<le> pow2 (1024 - e)" by (intro pow2_mono) simp
    with M2 have "of_int m < pow2 (1024 - e)" by simp
    then have "of_int m * pow2 e < pow2 (1024 - e) * pow2 e"
      using pow2_pos [of e] by simp
    with False show ?thesis by (simp add: split)
  qed
qed

text \<open>Known values of double arithmetic, of \<open>parseFloat\<close> and of \<open>toFixed\<close>.\<close>

lemma number_model_checks:
  "parseFloat ''0.1'' = Fin (3602879701896397 / 36028797018963968)"
  "js_add (parseFloat ''0.1'') (parseFloat ''0.2'') = Fin (1351079888211149 / 4503599627370496)"
  "parseFloat ''0.3'' = Fin (5404319552844595 / 18014398509481984)"
  "toFixed2 (\<lambda>q. []) (parseFloat ''1.005'') = ''1.00''"
  "parseFloat ''..5'' = NaN"
  "parseFloat '' -12.5e1x'' = Fin (- 125)"
  by code_simp+

end
